theory Spec2Isabelle
  imports Main "HOL-Library.Char_ord" "HOL-Library.List_Lexorder" "HOL-Library.Multiset"
    "HOL-Library.AList"
begin

text \<open>
  A model of \<open>update_skills.py\<close>, the updater of installed skills: its directory fingerprint,
  its replacement transaction, the update of one skill, and the \<open>remove\<close> and \<open>update\<close>
  commands.  The program's functions are pure functions of an explicit world (file system,
  trace of attempted operations, printed lines) and of an environment that decides what the
  program cannot; every exception is a value.  Paths follow POSIX.  What is left out:
  exceptions that are not \<open>Exception\<close>s (an interrupt), JSON numbers that are not integers,
  file modes, and the resolution of a symbolic link in the middle of a path.
\<close>

section \<open>Strings and POSIX path strings\<close>

text \<open>
  A Python \<open>str\<close> is modelled as a \<open>string\<close>: the bytes of its UTF-8 encoding, and for a
  name that the file system delivers, the bytes of the name (Python decodes them with the
  \<open>surrogateescape\<close> handler).  So \<open>s.encode("utf-8")\<close> returns the bytes themselves when
  they are well-formed UTF-8 and raises \<open>UnicodeEncodeError\<close> otherwise, see \<open>encode_utf8\<close>.
  The order on strings is the lexicographic order of \<open>HOL-Library.List_Lexorder\<close> over the
  character order of \<open>HOL-Library.Char_ord\<close>; on well-formed UTF-8 this is the order of the
  code points, which Python's \<open>sorted\<close> uses on \<open>str\<close>.  (Among names that are not
  well-formed the two orders can differ; such a name ends the fingerprint with an error.)
\<close>

definition startswith :: "string \<Rightarrow> string \<Rightarrow> bool" where
  "startswith s pre = (take (length pre) s = pre)"

definition endswith :: "string \<Rightarrow> string \<Rightarrow> bool" where
  "endswith s suf = (drop (length s - length suf) s = suf)"

text \<open>\<open>s.split(sep)\<close> for a one-character separator: never the empty list.\<close>

fun split_sep :: "char \<Rightarrow> string \<Rightarrow> string list" where
  "split_sep sep [] = [[]]"
| "split_sep sep (c # cs) =
     (if c = sep then [] # split_sep sep cs
      else (case split_sep sep cs of
              [] \<Rightarrow> [[c]]
            | w # ws \<Rightarrow> (c # w) # ws))"

text \<open>\<open>sep.join(xs)\<close>.\<close>

fun str_join :: "string \<Rightarrow> string list \<Rightarrow> string" where
  "str_join sep [] = []"
| "str_join sep [x] = x"
| "str_join sep (x # y # ys) = x @ sep @ str_join sep (y # ys)"

text \<open>\<open>posixpath.isabs\<close>: the path starts with a slash.\<close>

definition os_path_isabs :: "string \<Rightarrow> bool" where
  "os_path_isabs p = startswith p ''/''"

text \<open>
  \<open>posixpath.normpath\<close>.  \<open>normpath_step\<close> is the body of its loop over the components:
  \<open>init\<close> says that the path has initial slashes, \<open>new_comps\<close> is the stack built so far.
\<close>

definition normpath_step :: "bool \<Rightarrow> string list \<Rightarrow> string \<Rightarrow> string list" where
  "normpath_step init new_comps cmp =
     (if cmp = [] \<or> cmp = ''.'' then new_comps
      else if cmp \<noteq> ''..'' \<or> (\<not> init \<and> new_comps = [])
              \<or> (new_comps \<noteq> [] \<and> last new_comps = ''..'')
        then new_comps @ [cmp]
      else if new_comps \<noteq> [] then butlast new_comps
      else new_comps)"

definition initial_slashes :: "string \<Rightarrow> nat" where
  "initial_slashes p =
     (if startswith p ''/''
      then (if startswith p ''//'' \<and> \<not> startswith p ''///'' then 2 else 1)
      else 0)"

definition normpath :: "string \<Rightarrow> string" where
  "normpath p =
     (if p = [] then ''.''
      else
        let n = initial_slashes p;
            comps = foldl (normpath_step (n \<noteq> 0)) [] (split_sep CHR ''/'' p);
            path = replicate n CHR ''/'' @ str_join ''/'' comps
        in if path = [] then ''.'' else path)"

section \<open>Errors\<close>

text \<open>
  The messages of the exceptions the program raises itself, and the exception classes the
  program and the modelled library calls raise.
\<close>

datatype message =
    SourcesTopLevelNotObject
  | SourcesSkillsNotObject
  | SkillDirMissing string
  | SkillMdMissing string
  | RepoPathMustBeRelative
  | PathListNotSingle
  | MissingRepoPathOrUrl

datatype exn =
    ValueError message
  | FileNotFoundError string
  | FileExistsError string
  | NotADirectoryError string
  | PermissionError string
  | OSError string
  | ShutilError string
  | TypeError
  | AttributeError
  | KeyError
  | JSONDecodeError
  | CalledProcessError
  | UnicodeEncodeError

text \<open>
  \<open>s.encode("utf-8")\<close>.  \<open>valid_utf8\<close> is well-formedness of a byte sequence as UTF-8: no
  overlong form, no encoded surrogate, nothing above \<open>U+10FFFF\<close>.
\<close>

definition in_range :: "char \<Rightarrow> nat \<Rightarrow> nat \<Rightarrow> bool" where
  "in_range c lo hi = (lo \<le> of_char c \<and> (of_char c :: nat) \<le> hi)"

fun valid_utf8 :: "string \<Rightarrow> bool" where
  "valid_utf8 [] = True"
| "valid_utf8 (c # cs) =
     (if in_range c 0 127 then valid_utf8 cs
      else if in_range c 194 223 then
        (case cs of
           c1 # r \<Rightarrow> in_range c1 128 191 \<and> valid_utf8 r
         | _ \<Rightarrow> False)
      else if in_range c 224 239 then
        (case cs of
           c1 # c2 # r \<Rightarrow>
             in_range c1 (if in_range c 224 224 then 160 else 128)
                         (if in_range c 237 237 then 159 else 191)
             \<and> in_range c2 128 191 \<and> valid_utf8 r
         | _ \<Rightarrow> False)
      else if in_range c 240 244 then
        (case cs of
           c1 # c2 # c3 # r \<Rightarrow>
             in_range c1 (if in_range c 240 240 then 144 else 128)
                         (if in_range c 244 244 then 143 else 191)
             \<and> in_range c2 128 191 \<and> in_range c3 128 191 \<and> valid_utf8 r
         | _ \<Rightarrow> False)
      else False)"

definition encode_utf8 :: "string \<Rightarrow> exn + string" where
  "encode_utf8 s = (if valid_utf8 s then Inr s else Inl UnicodeEncodeError)"

section \<open>Repository-path validation\<close>

definition validate_repo_path :: "string \<Rightarrow> exn + unit" where
  "validate_repo_path path =
     (if os_path_isabs path \<or> startswith (normpath path) ''..''
      then Inl (ValueError RepoPathMustBeRelative)
      else Inr ())"

text \<open>
  The invariant of the data model in the spec's words: a path escapes the repository root
  when a \<open>..\<close> component is left after normalization.
\<close>

definition escapes_root :: "string \<Rightarrow> bool" where
  "escapes_root p = (''..'' \<in> set (split_sep CHR ''/'' (normpath p)))"

section \<open>Directory trees\<close>

text \<open>
  A directory tree as the program reads it from disk.  A directory is the list of its
  entries in the order in which the file system enumerates them.  \<open>Unreadable\<close> is a file
  that \<open>open\<close> refuses.  A symbolic link carries its target text and the node it resolves to
  (\<open>None\<close> for a dangling link).
\<close>

datatype node =
    File string
  | Unreadable
  | Symlink string "node option"
  | Dir "(string \<times> node) list"

text \<open>\<open>DirEntry.is_dir()\<close> as \<open>os.walk\<close> calls it: symbolic links are followed.\<close>

fun entry_is_dir :: "node \<Rightarrow> bool" where
  "entry_is_dir (Dir es) = True"
| "entry_is_dir (Symlink target (Some (Dir es))) = True"
| "entry_is_dir n = False"

lemma map_of_size:
  "map_of es d = Some n \<Longrightarrow> size n < Suc (size_list (size_prod (\<lambda>x. 0) size) es)"
  by (induction es) (auto split: if_splits)

text \<open>
  \<open>os.walk(path)\<close>, top-down, not following links.  A visit stands for the triple
  \<open>(root, dirnames, filenames)\<close>: \<open>root\<close> is kept as the list of components below \<open>path\<close>
  together with the entry table of that directory, which answers the file system lookups of
  \<open>os.path.join(root, name)\<close>.  The loop body may replace \<open>dirnames\<close> in place before the walk
  descends; \<open>body_dirs\<close> is that replacement.  A name that is a symbolic link is not
  descended into.
\<close>

type_synonym visit = "string list \<times> string list \<times> string list \<times> (string \<times> node) list"

function os_walk ::
  "(string list \<Rightarrow> string list) \<Rightarrow> string list \<Rightarrow> (string \<times> node) list \<Rightarrow> visit list" where
  "os_walk body_dirs rel es =
     (let dirs = map fst (filter (\<lambda>e. entry_is_dir (snd e)) es);
          nondirs = map fst (filter (\<lambda>e. \<not> entry_is_dir (snd e)) es)
      in (rel, dirs, nondirs, es) #
         concat (map (\<lambda>d. case map_of es d of
                            Some (Dir sub) \<Rightarrow> os_walk body_dirs (rel @ [d]) sub
                          | _ \<Rightarrow> [])
                     (body_dirs dirs)))"
  by pat_completeness auto
termination
  apply (relation "measure (\<lambda>(b, rel, es). size_list (size_prod (\<lambda>x. 0) size) es)")
   apply simp
  apply (auto dest!: map_of_size)
  done

section \<open>Directory fingerprint\<close>

definition IGNORED_DIRS :: "string list" where
  "IGNORED_DIRS = [''.git'', ''__pycache__'']"

definition IGNORED_FILES :: "string list" where
  "IGNORED_FILES = [''.DS_Store'']"

definition IGNORED_SUFFIXES :: "string list" where
  "IGNORED_SUFFIXES = [''.pyc'']"

text \<open>
  The hasher is the sequence of bytes fed to it so far; the digest function is a parameter
  (\<open>hashlib.sha256\<close> followed by \<open>hexdigest\<close>).
\<close>

type_synonym hasher = string

definition update :: "hasher \<Rightarrow> string \<Rightarrow> hasher" where
  "update h bs = h @ bs"

text \<open>The loop \<open>while True: chunk = read(8192); if not chunk: break; hasher.update(chunk)\<close>.\<close>

function read_chunks :: "string \<Rightarrow> hasher \<Rightarrow> hasher" where
  "read_chunks content h =
     (let chunk = take 8192 content
      in if chunk = [] then h else read_chunks (drop 8192 content) (update h chunk))"
  by pat_completeness auto
termination
  by (relation "measure (\<lambda>(content, h). length content)") auto

text \<open>A \<open>for\<close> loop whose body may raise.\<close>

fun fold_err :: "('a \<Rightarrow> 's \<Rightarrow> exn + 's) \<Rightarrow> 'a list \<Rightarrow> 's \<Rightarrow> exn + 's" where
  "fold_err f [] s = Inr s"
| "fold_err f (x # xs) s = (case f x s of Inl e \<Rightarrow> Inl e | Inr s' \<Rightarrow> fold_err f xs s')"

text \<open>\<open>os.path.relpath(p, path)\<close> for \<open>p\<close> at the components \<open>rel\<close> below \<open>path\<close>.\<close>

definition relpath :: "string list \<Rightarrow> string" where
  "relpath rel = (if rel = [] then ''.'' else str_join ''/'' rel)"

text \<open>\<open>dirnames[:] = [d for d in dirnames if d not in IGNORED_DIRS]; dirnames.sort()\<close>.\<close>

definition prune_dirnames :: "string list \<Rightarrow> string list" where
  "prune_dirnames dirnames = sort (filter (\<lambda>d. d \<notin> set IGNORED_DIRS) dirnames)"

text \<open>The body of the inner loop \<open>for name in sorted(filtered)\<close>.\<close>

definition hash_file :: "(string \<times> node) list \<Rightarrow> string list \<Rightarrow> string \<Rightarrow> hasher \<Rightarrow> exn + hasher" where
  "hash_file es rel name h =
     (let rel_path = relpath (rel @ [name])
      in case encode_utf8 rel_path of
           Inl e \<Rightarrow> Inl e
         | Inr bs \<Rightarrow>
             (let h1 = update (update h ''F'') bs
              in case map_of es name of
                   Some (Symlink target r) \<Rightarrow>
                     (case encode_utf8 target of
                        Inl e \<Rightarrow> Inl e
                      | Inr tb \<Rightarrow> Inr (update (update h1 ''L'') tb))
                 | Some (File content) \<Rightarrow> Inr (read_chunks content h1)
                 | Some Unreadable \<Rightarrow> Inl (PermissionError rel_path)
                 | Some (Dir sub) \<Rightarrow> Inl (OSError rel_path)
                 | None \<Rightarrow> Inl (FileNotFoundError rel_path)))"

text \<open>The body of the outer loop \<open>for root, dirnames, filenames in os.walk(path)\<close>.\<close>

fun hash_visit :: "visit \<Rightarrow> hasher \<Rightarrow> exn + hasher" where
  "hash_visit (rel, dirnames, filenames, es) h =
     (let rel_root = relpath rel;
          filtered = filter (\<lambda>name. name \<notin> set IGNORED_FILES
                               \<and> \<not> (\<exists>suffix \<in> set IGNORED_SUFFIXES. endswith name suffix))
                       filenames
      in case (if rel_root \<noteq> ''.''
               then (case encode_utf8 rel_root of
                       Inl e \<Rightarrow> Inl e
                     | Inr bs \<Rightarrow> Inr (update (update h ''D'') bs))
               else Inr h) of
           Inl e \<Rightarrow> Inl e
         | Inr h1 \<Rightarrow> fold_err (hash_file es rel) (sort filtered) h1)"

text \<open>
  \<open>_hash_directory\<close> on a directory with the entries \<open>es\<close>; \<open>H\<close> is the digest function.
\<close>

definition hash_entries :: "(string \<Rightarrow> string) \<Rightarrow> (string \<times> node) list \<Rightarrow> exn + string" where
  "hash_entries H es =
     (case fold_err hash_visit (os_walk prune_dirnames [] es) [] of
        Inl e \<Rightarrow> Inl e
      | Inr h \<Rightarrow> Inr (H h))"

text \<open>
  What \<open>_hash_directory\<close> sees at its argument: a directory (or a link to one) is walked;
  for anything else, and for a missing path, \<open>os.walk\<close> swallows the error of \<open>scandir\<close> and
  yields nothing, so the digest of the empty input is returned.
\<close>

fun hash_node :: "(string \<Rightarrow> string) \<Rightarrow> node option \<Rightarrow> exn + string" where
  "hash_node H (Some (Dir es)) = hash_entries H es"
| "hash_node H (Some (Symlink target (Some (Dir es)))) = hash_entries H es"
| "hash_node H n = Inr (H [])"

subsection \<open>Logical content of a tree\<close>


text \<open>
  The logical content of a tree: the same tree with the entries of every directory listed
  in the order of their names, and of a symbolic link its target text and whether it
  resolves to a directory (not what it resolves to).  Two trees with equal canonical forms
  have the same relative paths, file bytes and link targets, the same links resolve to a
  directory in both, and they differ at most in the enumeration order of their directories.
\<close>

fun canon :: "node \<Rightarrow> node" where
  "canon (Dir es) = Dir (sort_key fst (map (\<lambda>e. (fst e, canon (snd e))) es))"
| "canon (Symlink target r) =
     Symlink target (if entry_is_dir (Symlink target r) then Some (Dir []) else None)"
| "canon n = n"


section \<open>JSON values\<close>

text \<open>
  What \<open>json.load\<close> returns.  An object is kept as an association list in insertion order,
  as a Python \<open>dict\<close> is.  (Numbers are integers; the program never computes with them.)
\<close>

datatype json =
    JNull
  | JBool bool
  | JInt int
  | JStr string
  | JList "json list"
  | JObj "(string \<times> json) list"

text \<open>Python's truth value of an object (\<open>if x:\<close>, \<open>not x\<close>).\<close>

fun truthy :: "json \<Rightarrow> bool" where
  "truthy JNull = False"
| "truthy (JBool b) = b"
| "truthy (JInt i) = (i \<noteq> 0)"
| "truthy (JStr s) = (s \<noteq> [])"
| "truthy (JList xs) = (xs \<noteq> [])"
| "truthy (JObj kv) = (kv \<noteq> [])"

fun is_substring :: "string \<Rightarrow> string \<Rightarrow> bool" where
  "is_substring k [] = (k = [])"
| "is_substring k (c # cs) = (startswith (c # cs) k \<or> is_substring k cs)"

text \<open>\<open>key in x\<close>: membership for a dict, substring for a str, element for a list.\<close>

fun py_in :: "string \<Rightarrow> json \<Rightarrow> exn + bool" where
  "py_in k (JObj kv) = Inr (k \<in> fst ` set kv)"
| "py_in k (JStr s) = Inr (is_substring k s)"
| "py_in k (JList xs) = Inr (JStr k \<in> set xs)"
| "py_in k x = Inl TypeError"

text \<open>\<open>x[key]\<close> for a string key; only a dict can be indexed by a string.\<close>

fun py_getitem :: "json \<Rightarrow> string \<Rightarrow> exn + json" where
  "py_getitem (JObj kv) k = (case map_of kv k of Some v \<Rightarrow> Inr v | None \<Rightarrow> Inl KeyError)"
| "py_getitem x k = Inl TypeError"

text \<open>\<open>x.get(key)\<close>: \<open>None\<close> for a missing key; only a dict has the method.\<close>

fun py_get :: "json \<Rightarrow> string \<Rightarrow> exn + json" where
  "py_get (JObj kv) k = (case map_of kv k of Some v \<Rightarrow> Inr v | None \<Rightarrow> Inr JNull)"
| "py_get x k = Inl AttributeError"

section \<open>The file system\<close>

text \<open>
  The file system is one tree; a path string is resolved to the list of its components from
  the root, relative paths from the working directory.  Resolution is lexical: a symbolic
  link in the middle of a path is not followed (such a path does not resolve).
\<close>

definition path_step :: "string list \<Rightarrow> string \<Rightarrow> string list" where
  "path_step acc c =
     (if c = [] \<or> c = ''.'' then acc
      else if c = ''..'' then butlast acc
      else acc @ [c])"

definition resolve :: "string list \<Rightarrow> string \<Rightarrow> string list" where
  "resolve cwd p = foldl path_step (if os_path_isabs p then [] else cwd) (split_sep CHR ''/'' p)"

text \<open>\<open>posixpath.join(a, b)\<close>.\<close>

definition os_path_join :: "string \<Rightarrow> string \<Rightarrow> string" where
  "os_path_join a b =
     (if startswith b ''/'' then b
      else if a = [] \<or> endswith a ''/'' then a @ b
      else a @ ''/'' @ b)"

text \<open>\<open>posixpath.dirname\<close> and shutil's \<open>_basename\<close> (which ignores trailing slashes).\<close>

definition rstrip_slash :: "string \<Rightarrow> string" where
  "rstrip_slash p = rev (dropWhile (\<lambda>c. c = CHR ''/'') (rev p))"

definition os_path_dirname :: "string \<Rightarrow> string" where
  "os_path_dirname p =
     (let head = rev (dropWhile (\<lambda>c. c \<noteq> CHR ''/'') (rev p))
      in if head \<noteq> [] \<and> head \<noteq> replicate (length head) CHR ''/'' then rstrip_slash head
         else head)"

definition shutil_basename :: "string \<Rightarrow> string" where
  "shutil_basename p = rev (takeWhile (\<lambda>c. c \<noteq> CHR ''/'') (rev (rstrip_slash p)))"

definition startswith_list :: "string list \<Rightarrow> string list \<Rightarrow> bool" where
  "startswith_list q p = (take (length p) q = p)"

fun lookup :: "node \<Rightarrow> string list \<Rightarrow> node option" where
  "lookup n [] = Some n"
| "lookup (Dir es) (c # cs) = (case map_of es c of None \<Rightarrow> None | Some n \<Rightarrow> lookup n cs)"
| "lookup n (c # cs) = None"

text \<open>
  \<open>put t p n\<close> binds the path \<open>p\<close> to the node \<open>n\<close> (a new entry goes last, an old one is
  replaced); the parent of \<open>p\<close> must be a directory.  \<open>remove t p\<close> unlinks the entry at \<open>p\<close>.
  \<open>mkdirs t p\<close> creates the directory \<open>p\<close> and its missing ancestors.
\<close>

fun put :: "node \<Rightarrow> string list \<Rightarrow> node \<Rightarrow> node option" where
  "put (Dir es) [c] n = Some (Dir (AList.update c n es))"
| "put (Dir es) (c # cs) n =
     (case map_of es c of
        None \<Rightarrow> None
      | Some sub \<Rightarrow> (case put sub cs n of
                      None \<Rightarrow> None
                    | Some sub' \<Rightarrow> Some (Dir (AList.update c sub' es))))"
| "put t p n = None"

fun remove :: "node \<Rightarrow> string list \<Rightarrow> node" where
  "remove (Dir es) [c] = Dir (AList.delete c es)"
| "remove (Dir es) (c # cs) =
     (case map_of es c of
        None \<Rightarrow> Dir es
      | Some sub \<Rightarrow> Dir (AList.update c (remove sub cs) es))"
| "remove t p = t"

fun mkdirs :: "node \<Rightarrow> string list \<Rightarrow> node option" where
  "mkdirs (Dir es) [] = Some (Dir es)"
| "mkdirs (Dir es) (c # cs) =
     (case mkdirs (case map_of es c of None \<Rightarrow> Dir [] | Some sub \<Rightarrow> sub) cs of
        None \<Rightarrow> None
      | Some sub' \<Rightarrow> Some (Dir (AList.update c sub' es)))"
| "mkdirs t p = None"

text \<open>
  \<open>shutil.copytree(src, dst)\<close> with its default \<open>symlinks=False\<close> copies what a link
  resolves to.  An unreadable file or a dangling link is skipped and reported at the end;
  \<open>copy_complete\<close> says that nothing was skipped.
\<close>

fun copy_node :: "node \<Rightarrow> node option" where
  "copy_node (File content) = Some (File content)"
| "copy_node Unreadable = None"
| "copy_node (Symlink target None) = None"
| "copy_node (Symlink target (Some n)) = copy_node n"
| "copy_node (Dir es) =
     Some (Dir (concat (map (\<lambda>e. case copy_node (snd e) of
                                     None \<Rightarrow> []
                                   | Some c \<Rightarrow> [(fst e, c)]) es)))"

fun copy_complete :: "node \<Rightarrow> bool" where
  "copy_complete (File content) = True"
| "copy_complete Unreadable = False"
| "copy_complete (Symlink target None) = False"
| "copy_complete (Symlink target (Some n)) = copy_complete n"
| "copy_complete (Dir es) = (\<forall>e \<in> set es. copy_complete (snd e))"

section \<open>The world and the environment\<close>

text \<open>
  The operations the program performs on the outside world.  Every attempt is recorded in
  the trace of the world, also when it fails.
\<close>

datatype op =
    Makedirs string
  | Move string string
  | Rmtree string
  | Mkdtemp string
  | Copytree string string
  | Run "string list"
  | HashDir string
  | WriteFile string

text \<open>The lines the program prints, and where.\<close>

datatype line =
    SourcesFileMissing
  | NoTargetGiven
  | RecordMissingSkipped string
  | UpdateDone string
  | AlreadyUpToDate string
  | UpdateFailed string exn
  | RecordRemoved string
  | NoRecordToRemove

datatype stream = Stdout | Stderr

record world =
  fs :: node
  trace :: "op list"
  out :: "(stream \<times> line) list"

text \<open>
  What the program cannot decide is decided by the environment, as a function of the
  operations attempted so far: whether an operation fails for an outside reason (and which
  node a failed operation leaves at its target, \<open>None\<close> for no effect), the clock, the name a
  temporary directory gets, what the installer subprocess does to the file system and
  whether it exits with status zero.  The digest function, the JSON codec, \<open>expanduser\<close>,
  the working directory, \<open>$CODEX_HOME\<close> and \<open>sys.executable\<close> are parameters as well.
\<close>

datatype outcome = Succeed | Fail exn "node option"

record env =
  fault :: "op list \<Rightarrow> op \<Rightarrow> outcome"
  strftime :: "op list \<Rightarrow> string"
  tmpdir :: string
  tmprand :: "op list \<Rightarrow> string"
  installer :: "op list \<Rightarrow> string list \<Rightarrow> node \<Rightarrow> node \<times> bool"
  sha256_hexdigest :: "string \<Rightarrow> string"
  json_load :: "string \<Rightarrow> exn + json"
  json_dump :: "json \<Rightarrow> string"
  expanduser :: "string \<Rightarrow> string"
  getcwd :: string
  codex_home :: string
  sys_executable :: string

type_synonym 'a io = "world \<Rightarrow> (exn + 'a) \<times> world"

definition io_bind :: "'a io \<Rightarrow> ('a \<Rightarrow> 'b io) \<Rightarrow> 'b io" where
  "io_bind m f = (\<lambda>w. case m w of (Inl e, w') \<Rightarrow> (Inl e, w') | (Inr x, w') \<Rightarrow> f x w')"

definition io_return :: "'a \<Rightarrow> 'a io" where
  "io_return x = (\<lambda>w. (Inr x, w))"

definition io_raise :: "exn \<Rightarrow> 'a io" where
  "io_raise e = (\<lambda>w. (Inl e, w))"

text \<open>A computation that only reads the world.\<close>

definition io_pure :: "(world \<Rightarrow> exn + 'a) \<Rightarrow> 'a io" where
  "io_pure f = (\<lambda>w. (f w, w))"

definition log :: "op \<Rightarrow> world \<Rightarrow> world" where
  "log ev w = w\<lparr>trace := trace w @ [ev]\<rparr>"

definition print :: "stream \<Rightarrow> line \<Rightarrow> world \<Rightarrow> world" where
  "print s l w = w\<lparr>out := out w @ [(s, l)]\<rparr>"

definition at :: "env \<Rightarrow> world \<Rightarrow> string \<Rightarrow> node option" where
  "at E w p = (if p = [] then None else lookup (fs w) (resolve (resolve [] (getcwd E)) p))"

definition loc :: "env \<Rightarrow> string \<Rightarrow> string list" where
  "loc E p = resolve (resolve [] (getcwd E)) p"

text \<open>\<open>os.path.exists\<close>, \<open>isdir\<close> and \<open>isfile\<close> follow a final symbolic link.\<close>

definition os_path_exists :: "env \<Rightarrow> world \<Rightarrow> string \<Rightarrow> bool" where
  "os_path_exists E w p =
     (case at E w p of
        None \<Rightarrow> False
      | Some (Symlink target None) \<Rightarrow> False
      | Some n \<Rightarrow> True)"

definition os_path_isdir :: "env \<Rightarrow> world \<Rightarrow> string \<Rightarrow> bool" where
  "os_path_isdir E w p =
     (case at E w p of
        Some (Dir es) \<Rightarrow> True
      | Some (Symlink target (Some (Dir es))) \<Rightarrow> True
      | _ \<Rightarrow> False)"

definition os_path_isfile :: "env \<Rightarrow> world \<Rightarrow> string \<Rightarrow> bool" where
  "os_path_isfile E w p =
     (case at E w p of
        Some (File content) \<Rightarrow> True
      | Some Unreadable \<Rightarrow> True
      | Some (Symlink target (Some (File content))) \<Rightarrow> True
      | Some (Symlink target (Some Unreadable)) \<Rightarrow> True
      | _ \<Rightarrow> False)"

text \<open>
  The file system after a failed operation: the debris the environment names, if any, at
  the target of the operation.
\<close>

definition debris_at :: "string list \<Rightarrow> node option \<Rightarrow> node \<Rightarrow> node" where
  "debris_at target debris t =
     (case debris of
        None \<Rightarrow> t
      | Some m \<Rightarrow> (case put t target m of None \<Rightarrow> t | Some t' \<Rightarrow> t'))"

text \<open>\<open>os.makedirs(p, exist_ok=True)\<close>.\<close>

definition os_makedirs :: "env \<Rightarrow> string \<Rightarrow> unit io" where
  "os_makedirs E p w =
     (let w' = log (Makedirs p) w
      in if p = [] then (Inl (FileNotFoundError p), w')
         else case fault E (trace w) (Makedirs p) of
           Fail e debris \<Rightarrow> (Inl e, w')
         | Succeed \<Rightarrow>
             if os_path_isdir E w p then (Inr (), w')
             else (case mkdirs (fs w) (loc E p) of
                     None \<Rightarrow> (Inl (FileExistsError p), w')
                   | Some t \<Rightarrow> (Inr (), w'\<lparr>fs := t\<rparr>)))"

text \<open>
  \<open>shutil.move(src, dst)\<close>.  An existing directory \<open>dst\<close> receives \<open>src\<close> as a new entry
  named after it; otherwise \<open>src\<close> is renamed to \<open>dst\<close>.  A directory replaces nothing, a
  file replaces a file.
\<close>

definition shutil_move :: "env \<Rightarrow> string \<Rightarrow> string \<Rightarrow> unit io" where
  "shutil_move E src dst w =
     (let w' = log (Move src dst) w;
          real_dst = (if os_path_isdir E w dst then os_path_join dst (shutil_basename src) else dst)
      in if os_path_isdir E w dst \<and> at E w src \<noteq> None \<and> loc E src = loc E dst
           then (Inr (), w')
         else if os_path_isdir E w dst \<and> os_path_exists E w real_dst
           then (Inl (ShutilError real_dst), w')
         else case at E w src of
           None \<Rightarrow> (Inl (FileNotFoundError src), w')
         | Some n \<Rightarrow>
             if loc E src = loc E real_dst then (Inr (), w')
             else if startswith_list (loc E real_dst) (loc E src)
               then (Inl (ShutilError src), w')
             else (case fault E (trace w) (Move src dst) of
                 Fail e debris \<Rightarrow> (Inl e, w'\<lparr>fs := debris_at (loc E real_dst) debris (fs w)\<rparr>)
               | Succeed \<Rightarrow>
                   if at E w real_dst \<noteq> None \<and> (case n of Dir es \<Rightarrow> True | _ \<Rightarrow> False)
                     then (Inl (FileExistsError real_dst), w')
                   else (case put (remove (fs w) (loc E src)) (loc E real_dst) n of
                           None \<Rightarrow> (Inl (FileNotFoundError real_dst), w')
                         | Some t \<Rightarrow> (Inr (), w'\<lparr>fs := t\<rparr>))))"

text \<open>\<open>shutil.rmtree(p, ignore_errors=True)\<close>: it removes a directory and never raises.\<close>

definition shutil_rmtree :: "env \<Rightarrow> string \<Rightarrow> world \<Rightarrow> world" where
  "shutil_rmtree E p w =
     (let w' = log (Rmtree p) w
      in case at E w p of
           Some (Dir es) \<Rightarrow>
             (case fault E (trace w) (Rmtree p) of
                Succeed \<Rightarrow> w'\<lparr>fs := remove (fs w) (loc E p)\<rparr>
              | Fail e debris \<Rightarrow> w'\<lparr>fs := debris_at (loc E p) debris (fs w)\<rparr>)
         | _ \<Rightarrow> w')"

text \<open>\<open>tempfile.mkdtemp(prefix=...)\<close>: a fresh directory under the temporary directory.\<close>

definition tempfile_mkdtemp :: "env \<Rightarrow> string \<Rightarrow> string io" where
  "tempfile_mkdtemp E pre w =
     (let p = os_path_join (tmpdir E) (pre @ tmprand E (trace w));
          w' = log (Mkdtemp p) w
      in case fault E (trace w) (Mkdtemp p) of
           Fail e debris \<Rightarrow> (Inl e, w')
         | Succeed \<Rightarrow>
             if at E w p \<noteq> None then (Inl (FileExistsError p), w')
             else (case put (fs w) (loc E p) (Dir []) of
                     None \<Rightarrow> (Inl (FileNotFoundError p), w')
                   | Some t \<Rightarrow> (Inr p, w'\<lparr>fs := t\<rparr>)))"

text \<open>\<open>shutil.copytree(src, dst)\<close>.\<close>

definition shutil_copytree :: "env \<Rightarrow> string \<Rightarrow> string \<Rightarrow> unit io" where
  "shutil_copytree E src dst w =
     (let w' = log (Copytree src dst) w
      in case at E w src of
           None \<Rightarrow> (Inl (FileNotFoundError src), w')
         | Some n \<Rightarrow>
             if \<not> os_path_isdir E w src then (Inl (NotADirectoryError src), w')
             else if at E w dst \<noteq> None then (Inl (FileExistsError dst), w')
             else (case fault E (trace w) (Copytree src dst) of
                 Fail e debris \<Rightarrow> (Inl e, w'\<lparr>fs := debris_at (loc E dst) debris (fs w)\<rparr>)
               | Succeed \<Rightarrow>
                   (case (mkdirs (fs w) (loc E dst), copy_node n) of
                      (Some t, Some c) \<Rightarrow>
                        (case put t (loc E dst) c of
                           None \<Rightarrow> (Inl (FileNotFoundError dst), w')
                         | Some t' \<Rightarrow>
                             (if copy_complete n then Inr () else Inl (ShutilError src),
                              w'\<lparr>fs := t'\<rparr>))
                    | _ \<Rightarrow> (Inl (FileNotFoundError dst), w'))))"

text \<open>
  \<open>subprocess.run(cmd, check=True)\<close>.  An argument that is not a string is refused before a
  child process is started.
\<close>

fun str_args :: "json list \<Rightarrow> string list option" where
  "str_args [] = Some []"
| "str_args (JStr s # xs) = (case str_args xs of None \<Rightarrow> None | Some ss \<Rightarrow> Some (s # ss))"
| "str_args (x # xs) = None"

definition subprocess_run :: "env \<Rightarrow> json list \<Rightarrow> unit io" where
  "subprocess_run E cmd w =
     (case str_args cmd of
        None \<Rightarrow> (Inl TypeError, w)
      | Some argv \<Rightarrow>
          (let w' = log (Run argv) w
           in case fault E (trace w) (Run argv) of
                Fail e debris \<Rightarrow> (Inl e, w')
              | Succeed \<Rightarrow>
                  (case installer E (trace w) argv (fs w) of
                     (t, ok) \<Rightarrow> (if ok then Inr () else Inl CalledProcessError, w'\<lparr>fs := t\<rparr>))))"

section \<open>The program\<close>

definition DEFAULT_SOURCES_NAME :: string where
  "DEFAULT_SOURCES_NAME = ''.skill-sources.json''"

text \<open>The arguments of the \<open>remove\<close> and \<open>update\<close> commands, as \<open>argparse\<close> delivers them.\<close>

record args =
  args_sources :: "string option"
  args_all :: bool
  args_name :: "string list option"
  args_installer :: "string option"
  args_keep_backup :: bool

definition default_sources :: "string \<Rightarrow> string" where
  "default_sources dest_root = os_path_join dest_root DEFAULT_SOURCES_NAME"

definition os_path_abspath :: "env \<Rightarrow> string \<Rightarrow> string" where
  "os_path_abspath E p = normpath (if os_path_isabs p then p else os_path_join (getcwd E) p)"

definition expand_path :: "env \<Rightarrow> string \<Rightarrow> string" where
  "expand_path E path = os_path_abspath E (expanduser E path)"

text \<open>\<open>args.sources or _default_sources(dest_root)\<close>.\<close>

definition sources_path_of :: "args \<Rightarrow> string \<Rightarrow> string" where
  "sources_path_of a dest_root =
     (case args_sources a of
        Some s \<Rightarrow> if s \<noteq> [] then s else default_sources dest_root
      | None \<Rightarrow> default_sources dest_root)"

text \<open>\<open>open(path).read()\<close> of an existing path.\<close>

definition read_text :: "env \<Rightarrow> world \<Rightarrow> string \<Rightarrow> exn + string" where
  "read_text E w path =
     (case at E w path of
        Some (File content) \<Rightarrow> Inr content
      | Some (Symlink target (Some (File content))) \<Rightarrow> Inr content
      | Some Unreadable \<Rightarrow> Inl (PermissionError path)
      | Some (Symlink target (Some Unreadable)) \<Rightarrow> Inl (PermissionError path)
      | Some n \<Rightarrow> Inl (OSError path)
      | None \<Rightarrow> Inl (FileNotFoundError path))"

definition with_version :: "(string \<times> json) list \<Rightarrow> json" where
  "with_version kv =
     JObj (if ''version'' \<in> fst ` set kv then kv else AList.update ''version'' (JInt 1) kv)"

definition load_sources :: "env \<Rightarrow> world \<Rightarrow> string \<Rightarrow> exn + json" where
  "load_sources E w path =
     (if \<not> os_path_exists E w path
      then Inr (JObj [(''version'', JInt 1), (''skills'', JObj [])])
      else case read_text E w path of
        Inl e \<Rightarrow> Inl e
      | Inr text \<Rightarrow>
          (case json_load E text of
             Inl e \<Rightarrow> Inl e
           | Inr (JObj kv) \<Rightarrow>
               (case map_of kv ''skills'' of
                  None \<Rightarrow> Inr (with_version (AList.update ''skills'' (JObj []) kv))
                | Some JNull \<Rightarrow> Inr (with_version (AList.update ''skills'' (JObj []) kv))
                | Some (JObj skills) \<Rightarrow> Inr (with_version kv)
                | Some v \<Rightarrow> Inl (ValueError SourcesSkillsNotObject))
           | Inr data \<Rightarrow> Inl (ValueError SourcesTopLevelNotObject)))"

text \<open>\<open>open(path, "w")\<close> and the write of the whole text.\<close>

definition write_text :: "env \<Rightarrow> string \<Rightarrow> string \<Rightarrow> unit io" where
  "write_text E path text w =
     (let w' = log (WriteFile path) w
      in case fault E (trace w) (WriteFile path) of
           Fail e debris \<Rightarrow> (Inl e, w'\<lparr>fs := debris_at (loc E path) debris (fs w)\<rparr>)
         | Succeed \<Rightarrow>
             if os_path_isdir E w path then (Inl (OSError path), w')
             else (case put (fs w) (loc E path) (File text) of
                     None \<Rightarrow> (Inl (FileNotFoundError path), w')
                   | Some t \<Rightarrow> (Inr (), w'\<lparr>fs := t\<rparr>)))"

definition save_sources :: "env \<Rightarrow> string \<Rightarrow> json \<Rightarrow> unit io" where
  "save_sources E path data =
     io_bind (os_makedirs E (os_path_dirname path)) (\<lambda>u.
       write_text E path (json_dump E data @ [CHR 0x0A]))"

definition validate_skill_dir :: "env \<Rightarrow> world \<Rightarrow> string \<Rightarrow> exn + unit" where
  "validate_skill_dir E w path =
     (if \<not> os_path_isdir E w path then Inl (ValueError (SkillDirMissing path))
      else if \<not> os_path_isfile E w (os_path_join path ''SKILL.md'')
        then Inl (ValueError (SkillMdMissing path))
      else Inr ())"

text \<open>\<open>_hash_directory(path)\<close> on the world: the walk reads what is at \<open>path\<close>.\<close>

definition fingerprint :: "env \<Rightarrow> world \<Rightarrow> string \<Rightarrow> exn + string" where
  "fingerprint E w path = hash_node (sha256_hexdigest E) (at E w path)"

definition hash_directory :: "env \<Rightarrow> string \<Rightarrow> string io" where
  "hash_directory E path w = (fingerprint E w path, log (HashDir path) w)"

definition is_same_skill :: "env \<Rightarrow> string \<Rightarrow> string \<Rightarrow> bool io" where
  "is_same_skill E dest_path new_path w =
     (if \<not> os_path_isdir E w dest_path then (Inr False, w)
      else io_bind (hash_directory E dest_path) (\<lambda>h1.
           io_bind (hash_directory E new_path) (\<lambda>h2.
             io_return (h1 = h2))) w)"

definition resolve_installer_path :: "env \<Rightarrow> world \<Rightarrow> string option \<Rightarrow> exn + string" where
  "resolve_installer_path E w user_path =
     (let installer_path =
            (case user_path of
               Some p \<Rightarrow> if p \<noteq> [] then expand_path E p
                         else foldl os_path_join (codex_home E)
                                [''skills'', ''.system'', ''skill-installer'', ''scripts'',
                                 ''install-skill-from-github.py'']
             | None \<Rightarrow> foldl os_path_join (codex_home E)
                         [''skills'', ''.system'', ''skill-installer'', ''scripts'',
                          ''install-skill-from-github.py''])
      in if \<not> os_path_isfile E w installer_path
         then Inl (FileNotFoundError ''install-skill-from-github.py'')
         else Inr installer_path)"

text \<open>
  \<open>_install_from_github\<close>.  The command line is a list of JSON values because the fields of
  the source record are passed on as they are.
\<close>

definition install_from_github :: "env \<Rightarrow> json \<Rightarrow> string \<Rightarrow> string \<Rightarrow> string \<Rightarrow> unit io" where
  "install_from_github E entry name stage_root installer_path =
     (let cmd = [JStr (sys_executable E), JStr installer_path, JStr ''--dest'', JStr stage_root,
                 JStr ''--name'', JStr name]
      in io_bind (io_pure (\<lambda>w. py_in ''url'' entry)) (\<lambda>has_url.
         io_bind
           (if has_url
            then io_bind (io_pure (\<lambda>w. py_getitem entry ''url'')) (\<lambda>url.
                   io_return (cmd @ [JStr ''--url'', url]))
            else io_bind (io_pure (\<lambda>w. py_get entry ''repo'')) (\<lambda>repo.
                 io_bind (io_pure (\<lambda>w. py_get entry ''path'')) (\<lambda>repo_path0.
                 io_bind
                   (case repo_path0 of
                      JList xs \<Rightarrow>
                        if length xs \<noteq> 1 then io_raise (ValueError PathListNotSingle)
                        else io_return (hd xs)
                    | x \<Rightarrow> io_return x) (\<lambda>repo_path.
                 if \<not> truthy repo \<or> \<not> truthy repo_path
                 then io_raise (ValueError MissingRepoPathOrUrl)
                 else io_bind
                        (io_pure (\<lambda>w. case repo_path of
                                         JStr s \<Rightarrow> validate_repo_path s
                                       | x \<Rightarrow> Inl TypeError)) (\<lambda>u.
                      io_return (cmd @ [JStr ''--repo'', repo, JStr ''--path'', repo_path]))))))
           (\<lambda>cmd1.
         io_bind (io_pure (\<lambda>w. py_get entry ''ref'')) (\<lambda>ref.
         io_bind (io_pure (\<lambda>w. py_get entry ''method'')) (\<lambda>method.
           let cmd2 = (if truthy ref then cmd1 @ [JStr ''--ref'', ref] else cmd1);
               cmd3 = (if truthy method then cmd2 @ [JStr ''--method'', method] else cmd2)
           in subprocess_run E cmd3)))))"

text \<open>\<open>_replace_skill\<close>: the replacement transaction.\<close>

definition replace_skill :: "env \<Rightarrow> string \<Rightarrow> string \<Rightarrow> string \<Rightarrow> bool \<Rightarrow> unit io" where
  "replace_skill E dest_root name new_path keep_backup =
     io_bind (os_makedirs E dest_root) (\<lambda>u.
       let dest_path = os_path_join dest_root name
       in io_bind
            (\<lambda>w. if os_path_exists E w dest_path
                 then (let timestamp = strftime E (trace w);
                           backup_path = dest_path @ ''.bak-'' @ timestamp
                       in io_bind (shutil_move E dest_path backup_path) (\<lambda>u.
                            io_return (Some backup_path)) w)
                 else (Inr None, w))
            (\<lambda>backup_path.
          io_bind
            (\<lambda>w. case shutil_move E new_path dest_path w of
                   (Inr u, w') \<Rightarrow> (Inr (), w')
                 | (Inl e, w') \<Rightarrow>
                     (case backup_path of
                        None \<Rightarrow> (Inl e, w')
                      | Some b \<Rightarrow>
                          if os_path_exists E w' b \<and> \<not> os_path_exists E w' dest_path
                          then (case shutil_move E b dest_path w' of
                                  (Inr u, w'') \<Rightarrow> (Inl e, w'')
                                | (Inl e', w'') \<Rightarrow> (Inl e', w''))
                          else (Inl e, w')))
            (\<lambda>u w. (Inr (),
                     (case backup_path of
                        None \<Rightarrow> w
                      | Some b \<Rightarrow> if \<not> keep_backup then shutil_rmtree E b w else w)))))"

text \<open>
  \<open>_update_one\<close>.  \<open>stage_skill\<close> is the staging part of its \<open>try\<close> block (the creation of the
  staging root and the local copy or the remote fetch), \<open>update_one_try\<close> the whole block.
\<close>

definition stage_skill :: "env \<Rightarrow> string \<Rightarrow> json \<Rightarrow> args \<Rightarrow> string \<Rightarrow> unit io" where
  "stage_skill E name entry a stage_root =
     io_bind (os_makedirs E stage_root) (\<lambda>u.
     io_bind (io_pure (\<lambda>w. py_in ''local_path'' entry)) (\<lambda>is_local.
       if is_local
       then io_bind (io_pure (\<lambda>w. py_getitem entry ''local_path'')) (\<lambda>lp.
              case lp of
                JStr s \<Rightarrow>
                  (let local_path = expand_path E s
                   in io_bind (io_pure (\<lambda>w. validate_skill_dir E w local_path)) (\<lambda>u.
                        shutil_copytree E local_path (os_path_join stage_root name)))
              | x \<Rightarrow> io_raise TypeError)
       else io_bind (io_pure (\<lambda>w. resolve_installer_path E w (args_installer a)))
              (\<lambda>installer_path.
                 install_from_github E entry name stage_root installer_path)))"

definition update_one_try :: "env \<Rightarrow> string \<Rightarrow> json \<Rightarrow> string \<Rightarrow> args \<Rightarrow> string \<Rightarrow> bool io" where
  "update_one_try E name entry dest_root a tmp_root =
     (let stage_root = os_path_join tmp_root ''stage''
      in io_bind (stage_skill E name entry a stage_root) (\<lambda>u.
           let new_path = os_path_join stage_root name
           in io_bind (io_pure (\<lambda>w. validate_skill_dir E w new_path)) (\<lambda>u.
                let dest_path = os_path_join dest_root name
                in io_bind (is_same_skill E dest_path new_path) (\<lambda>same.
                     if same then io_return False
                     else io_bind (replace_skill E dest_root name new_path (args_keep_backup a))
                            (\<lambda>u. io_return True)))))"

definition update_one :: "env \<Rightarrow> string \<Rightarrow> json \<Rightarrow> string \<Rightarrow> args \<Rightarrow> bool io" where
  "update_one E name entry dest_root a =
     io_bind (tempfile_mkdtemp E ''skill-update-'') (\<lambda>tmp_root w.
       case update_one_try E name entry dest_root a tmp_root w of
         (r, w') \<Rightarrow> (r, shutil_rmtree E tmp_root w'))"

text \<open>The \<open>skills\<close> mapping of the loaded registry.\<close>

definition skills_of :: "json \<Rightarrow> (string \<times> json) list" where
  "skills_of data =
     (case data of
        JObj kv \<Rightarrow> (case map_of kv ''skills'' of Some (JObj skills) \<Rightarrow> skills | _ \<Rightarrow> [])
      | _ \<Rightarrow> [])"

definition set_skills :: "json \<Rightarrow> (string \<times> json) list \<Rightarrow> json" where
  "set_skills data skills =
     (case data of JObj kv \<Rightarrow> JObj (AList.update ''skills'' (JObj skills) kv) | x \<Rightarrow> x)"

text \<open>\<open>_cmd_remove\<close>; \<open>remove_loop\<close> is its loop over \<open>args.name\<close>.\<close>

fun remove_loop ::
  "string list \<Rightarrow> (string \<times> json) list \<Rightarrow> string list \<Rightarrow> (string \<times> json) list \<times> string list" where
  "remove_loop [] skills removed = (skills, removed)"
| "remove_loop (name # names) skills removed =
     (if name \<in> fst ` set skills
      then remove_loop names (AList.delete name skills) (removed @ [name])
      else remove_loop names skills removed)"

definition cmd_remove :: "env \<Rightarrow> args \<Rightarrow> string \<Rightarrow> int io" where
  "cmd_remove E a dest_root w =
     (let sources_path = sources_path_of a dest_root
      in case load_sources E w sources_path of
           Inl e \<Rightarrow> (Inl e, w)
         | Inr data \<Rightarrow>
             (case args_name a of
                None \<Rightarrow> (Inl TypeError, w)
              | Some names \<Rightarrow>
                  (case remove_loop names (skills_of data) [] of
                     (skills, removed) \<Rightarrow>
                       if removed \<noteq> []
                       then io_bind (save_sources E sources_path (set_skills data skills)) (\<lambda>u w'.
                              (Inr 0, fold (\<lambda>name. print Stdout (RecordRemoved name)) removed w')) w
                       else (Inr 0, print Stdout NoRecordToRemove w))))"

text \<open>\<open>_cmd_update\<close>; \<open>update_loop\<close> is its loop over the targets, with the flag \<open>errors\<close>.\<close>

fun update_loop ::
  "env \<Rightarrow> args \<Rightarrow> string \<Rightarrow> (string \<times> json) list \<Rightarrow> string list \<Rightarrow> bool \<Rightarrow> world \<Rightarrow> bool \<times> world" where
  "update_loop E a dest_root skills [] errors w = (errors, w)"
| "update_loop E a dest_root skills (name # names) errors w =
     (case map_of skills name of
        None \<Rightarrow> update_loop E a dest_root skills names errors w
      | Some entry \<Rightarrow>
          if \<not> truthy entry then update_loop E a dest_root skills names errors w
          else (case update_one E name entry dest_root a w of
                  (Inr updated, w') \<Rightarrow>
                    update_loop E a dest_root skills names errors
                      (print Stdout (if updated then UpdateDone name else AlreadyUpToDate name) w')
                | (Inl exc, w') \<Rightarrow>
                    update_loop E a dest_root skills names True
                      (print Stderr (UpdateFailed name exc) w')))"

definition cmd_update :: "env \<Rightarrow> args \<Rightarrow> string \<Rightarrow> int io" where
  "cmd_update E a dest_root w =
     (let sources_path = sources_path_of a dest_root
      in if \<not> os_path_exists E w sources_path
         then (Inr 1, print Stderr SourcesFileMissing w)
         else case load_sources E w sources_path of
           Inl e \<Rightarrow> (Inl e, w)
         | Inr data \<Rightarrow>
             (let skills = skills_of data;
                  targets = (if args_all a then sort (map fst skills)
                             else (case args_name a of Some names \<Rightarrow> names | None \<Rightarrow> []))
              in if targets = [] then (Inr 1, print Stderr NoTargetGiven w)
                 else
                   (let missing = filter (\<lambda>name. name \<notin> fst ` set skills) targets;
                        w1 = fold (\<lambda>name. print Stderr (RecordMissingSkipped name)) missing w
                    in case update_loop E a dest_root skills targets False w1 of
                         (errors, w2) \<Rightarrow> (Inr (if errors then 1 else 0), w2))))"

section \<open>A concrete world\<close>

text \<open>
  An environment in which nothing fails for an outside reason, and a file system with the
  source directory \<open>/src/foo\<close>, the skills root \<open>/skills\<close> holding a registry file, the
  installer script and an empty \<open>/tmp\<close>.  The digest function is the identity, so that a
  digest shows the bytes that were hashed.
\<close>

definition example_registry :: json where
  "example_registry =
     JObj [(''version'', JInt 1),
           (''skills'', JObj [(''foo'', JObj [(''local_path'', JStr ''/src/foo'')])])]"

definition example_env :: env where
  "example_env =
     \<lparr>fault = (\<lambda>h ev. Succeed),
      strftime = (\<lambda>h. ''20261103120000''),
      tmpdir = ''/tmp'',
      tmprand = (\<lambda>h. ''abc''),
      installer = (\<lambda>h argv t. (t, True)),
      sha256_hexdigest = (\<lambda>bs. bs),
      json_load = (\<lambda>s. Inr example_registry),
      json_dump = (\<lambda>j. ''{}''),
      expanduser = (\<lambda>p. p),
      getcwd = ''/'',
      codex_home = ''/codex'',
      sys_executable = ''python3''\<rparr>"

definition example_fs :: node where
  "example_fs =
     Dir [(''tmp'', Dir []),
          (''src'', Dir [(''foo'', Dir [(''SKILL.md'', File ''m''), (''a.txt'', File ''hi'')])]),
          (''skills'', Dir [(''.skill-sources.json'', File ''r'')]),
          (''installer.py'', File ''i'')]"

definition example_world :: world where
  "example_world = \<lparr>fs = example_fs, trace = [], out = []\<rparr>"

definition example_args :: args where
  "example_args =
     \<lparr>args_sources = None, args_all = True, args_name = None,
      args_installer = Some ''/installer.py'', args_keep_backup = False\<rparr>"




text \<open>
  The concrete world with the skill \<open>foo\<close> installed, identical to its source, and a world
  that also holds a staged candidate \<open>/tmp/new\<close>.
\<close>

definition installed_world :: world where
  "installed_world =
     \<lparr>fs = Dir [(''tmp'', Dir []),
                (''src'', Dir [(''foo'', Dir [(''SKILL.md'', File ''m''), (''a.txt'', File ''hi'')])]),
                (''skills'', Dir [(''.skill-sources.json'', File ''r''),
                                  (''foo'', Dir [(''a.txt'', File ''hi''), (''SKILL.md'', File ''m'')])]),
                (''installer.py'', File ''i'')],
      trace = [], out = []\<rparr>"

definition staged_world :: world where
  "staged_world =
     \<lparr>fs = Dir [(''tmp'', Dir [(''new'', Dir [(''SKILL.md'', File ''m2'')])]),
                (''skills'', Dir [(''foo'', Dir [(''SKILL.md'', File ''m'')])])],
      trace = [], out = []\<rparr>"

text \<open>The world with the staged candidate in which the backup path is taken by a directory.\<close>

definition collision_world :: world where
  "collision_world =
     \<lparr>fs = Dir [(''tmp'', Dir [(''new'', Dir [(''SKILL.md'', File ''m2'')])]),
                (''skills'', Dir [(''foo'', Dir [(''SKILL.md'', File ''m'')]),
                                  (''foo.bak-20261103120000'', Dir [(''SKILL.md'', File ''m0'')])])],
      trace = [], out = []\<rparr>"

text \<open>
  An environment in which the move of the staged candidate fails, and one in which every
  move to the target path fails (the final move and the restore of the backup).
\<close>

definition final_move_fails_env :: env where
  "final_move_fails_env =
     example_env\<lparr>fault := (\<lambda>h ev. case ev of
                               Move src dst \<Rightarrow> if src = ''/tmp/new'' then Fail (OSError src) None
                                               else Succeed
                             | _ \<Rightarrow> Succeed)\<rparr>"

definition moves_to_target_fail_env :: env where
  "moves_to_target_fail_env =
     example_env\<lparr>fault := (\<lambda>h ev. case ev of
                               Move src dst \<Rightarrow> if dst = ''/skills/foo'' then Fail (OSError src) None
                                               else Succeed
                             | _ \<Rightarrow> Succeed)\<rparr>"


section \<open>Auxiliary definitions for the proofs\<close>

text \<open>
  Two paths neither of which lies on the other, and a name that is a single ordinary path
  component.
\<close>

definition unrelated :: "string list \<Rightarrow> string list \<Rightarrow> bool" where
  "unrelated p q = (\<not> startswith_list q p \<and> \<not> startswith_list p q)"




text \<open>A computation that prints nothing.\<close>

definition keeps_out :: "'a io \<Rightarrow> bool" where
  "keeps_out m = (\<forall>w r w'. m w = (r, w') \<longrightarrow> out w' = out w)"

text \<open>The line the loop of \<open>_cmd_update\<close> prints for a result of \<open>_update_one\<close>.\<close>

fun report :: "string \<Rightarrow> exn + bool \<Rightarrow> stream \<times> line" where
  "report name (Inl exc) = (Stderr, UpdateFailed name exc)"
| "report name (Inr updated) = (Stdout, if updated then UpdateDone name else AlreadyUpToDate name)"

text \<open>
  The calls of \<open>_update_one\<close> that the loop of \<open>_cmd_update\<close> makes, in order, each with its
  result: the loop of \<open>update_loop\<close> again, observed at its calls.
\<close>

fun update_outcomes ::
  "env \<Rightarrow> args \<Rightarrow> string \<Rightarrow> (string \<times> json) list \<Rightarrow> string list \<Rightarrow> world
     \<Rightarrow> (string \<times> (exn + bool)) list" where
  "update_outcomes E a dest_root skills [] w = []"
| "update_outcomes E a dest_root skills (name # names) w =
     (case map_of skills name of
        None \<Rightarrow> update_outcomes E a dest_root skills names w
      | Some entry \<Rightarrow>
          if \<not> truthy entry then update_outcomes E a dest_root skills names w
          else (case update_one E name entry dest_root a w of
                  (r, w') \<Rightarrow>
                    (name, r) # update_outcomes E a dest_root skills names
                                  (print (fst (report name r)) (snd (report name r)) w')))"

definition has_entry :: "(string \<times> json) list \<Rightarrow> string \<Rightarrow> bool" where
  "has_entry skills name = (case map_of skills name of None \<Rightarrow> False | Some entry \<Rightarrow> truthy entry)"

definition update_targets :: "args \<Rightarrow> (string \<times> json) list \<Rightarrow> string list" where
  "update_targets a skills =
     (if args_all a then sort (map fst skills)
      else (case args_name a of Some names \<Rightarrow> names | None \<Rightarrow> []))"

text \<open>The world in which the loop of \<open>_cmd_update\<close> starts: the missing records have been reported.\<close>

definition missing_reported :: "(string \<times> json) list \<Rightarrow> string list \<Rightarrow> world \<Rightarrow> world" where
  "missing_reported skills targets w =
     fold (\<lambda>name. print Stderr (RecordMissingSkipped name))
       (filter (\<lambda>name. name \<notin> fst ` set skills) targets) w"

text \<open>A stack of normalized components: its \<open>..\<close> components are at the front.\<close>

definition dd_front :: "string list \<Rightarrow> bool" where
  "dd_front xs = (\<exists>k rest. xs = replicate k ''..'' @ rest \<and> ''..'' \<notin> set rest)"


declare os_walk.simps [simp del]

section \<open>Properties of path strings\<close>


lemma split_sep_free: "c \<notin> set s \<Longrightarrow> split_sep c s = [s]"
  by (induction s) auto

lemma split_sep_no_sep: "w \<in> set (split_sep c s) \<Longrightarrow> c \<notin> set w"
  by (induction s arbitrary: w) (auto split: if_splits list.splits)

lemma split_sep_append: "c \<notin> set a \<Longrightarrow> split_sep c (a @ c # b) = a # split_sep c b"
  by (induction a) (auto split: list.splits)

lemma split_sep_join:
  "xs \<noteq> [] \<Longrightarrow> \<forall>w \<in> set xs. c \<notin> set w \<Longrightarrow> split_sep c (str_join [c] xs) = xs"
proof (induction xs)
  case Nil then show ?case by simp
next
  case (Cons x xs)
  show ?case
  proof (cases xs)
    case Nil then show ?thesis using Cons.prems by (simp add: split_sep_free)
  next
    case (Cons y ys)
    with Cons.IH Cons.prems show ?thesis by (simp add: split_sep_append)
  qed
qed

lemma dd_front_Nil: "dd_front []"
  unfolding dd_front_def by (rule exI[of _ 0]) simp

lemma dd_front_step: 
  assumes "dd_front xs" shows "dd_front (normpath_step False xs w)"
proof -
  from assms obtain k rest where xs: "xs = replicate k ''..'' @ rest" and r: "''..'' \<notin> set rest"
    unfolding dd_front_def by blast
  consider (skip) "w = [] \<or> w = ''.''" 
    | (push) "w \<noteq> []" "w \<noteq> ''.''" "w \<noteq> ''..''"
    | (dd_push) "w = ''..''" "xs = [] \<or> last xs = ''..''"
    | (dd_pop) "w = ''..''" "xs \<noteq> []" "last xs \<noteq> ''..''"
    by blast
  then show ?thesis
  proof cases
    case skip then show ?thesis using assms by (auto simp: normpath_step_def)
  next
    case push
    then have "normpath_step False xs w = replicate k ''..'' @ (rest @ [w])"
      by (simp add: normpath_step_def xs)
    moreover have "''..'' \<notin> set (rest @ [w])" using r push by auto
    ultimately show ?thesis unfolding dd_front_def by blast
  next
    case dd_push
    have "rest = []"
    proof (rule ccontr)
      assume "rest \<noteq> []"
      then have "last xs = last rest" "last rest \<in> set rest" "xs \<noteq> []" by (simp_all add: xs)
      with dd_push r show False by auto
    qed
    then have xs': "xs = replicate k ''..''" by (simp add: xs)
    have "normpath_step False xs w = xs @ [''..'']"
      using dd_push by (auto simp: normpath_step_def)
    also have "\<dots> = replicate (Suc k) ''..'' @ []"
      unfolding xs' by (simp add: replicate_append_same)
    finally have "normpath_step False xs w = replicate (Suc k) ''..'' @ [] \<and> ''..'' \<notin> set ([]::string list)" by simp
    then show ?thesis unfolding dd_front_def by blast
  next
    case dd_pop
    have "rest \<noteq> []"
    proof
      assume "rest = []"
      with dd_pop show False by (auto simp: xs)
    qed
    then have "normpath_step False xs w = replicate k ''..'' @ butlast rest"
      using dd_pop by (auto simp: normpath_step_def xs butlast_append)
    moreover have "''..'' \<notin> set (butlast rest)" using r by (meson in_set_butlastD)
    ultimately show ?thesis unfolding dd_front_def by blast
  qed
qed

lemma dd_front_foldl: "dd_front xs \<Longrightarrow> dd_front (foldl (normpath_step False) xs ws)"
  by (induction ws arbitrary: xs) (auto simp: dd_front_step)

lemma step_no_sep:
  "\<forall>x \<in> set xs. c \<notin> set x \<Longrightarrow> c \<notin> set w \<Longrightarrow> \<forall>x \<in> set (normpath_step i xs w). c \<notin> set x"
  by (auto simp: normpath_step_def dest: in_set_butlastD)

lemma foldl_no_sep:
  "\<forall>x \<in> set xs. c \<notin> set x \<Longrightarrow> \<forall>w \<in> set ws. c \<notin> set w \<Longrightarrow>
     \<forall>x \<in> set (foldl (normpath_step i) xs ws). c \<notin> set x"
proof (induction ws arbitrary: xs)
  case Nil then show ?case by simp
next
  case (Cons w ws)
  have "\<forall>x \<in> set (normpath_step i xs w). c \<notin> set x"
    using Cons.prems by (intro step_no_sep) auto
  moreover have "\<forall>w \<in> set ws. c \<notin> set w" using Cons.prems(2) by simp
  ultimately have "\<forall>x \<in> set (foldl (normpath_step i) (normpath_step i xs w) ws). c \<notin> set x"
    by (rule Cons.IH)
  then show ?case by simp
qed

lemma str_join_Cons: "str_join s (x # xs) = x @ (if xs = [] then [] else s @ str_join s xs)"
  by (cases xs) auto

lemma escapes_startswith:
  assumes "\<not> os_path_isabs p" "escapes_root p"
  shows "startswith (normpath p) ''..''"
proof -
  let ?comps = "foldl (normpath_step False) [] (split_sep CHR ''/'' p)"
  have n0: "initial_slashes p = 0" using assms(1) by (simp add: initial_slashes_def os_path_isabs_def)
  have pne: "p \<noteq> []" using assms(2) by (auto simp: escapes_root_def normpath_def)
  have free: "\<forall>x \<in> set ?comps. CHR ''/'' \<notin> set x"
    by (rule foldl_no_sep) (auto dest: split_sep_no_sep)
  have np: "normpath p = (if str_join ''/'' ?comps = [] then ''.'' else str_join ''/'' ?comps)"
    using pne n0 by (simp add: normpath_def Let_def)
  have cne: "?comps \<noteq> []"
  proof
    assume "?comps = []"
    then have "normpath p = ''.''" using np by simp
    with assms(2) show False by (simp add: escapes_root_def)
  qed
  have sp: "split_sep CHR ''/'' (str_join ''/'' ?comps) = ?comps"
    using split_sep_join[OF cne, of "CHR ''/''"] free by simp
  have jne: "str_join ''/'' ?comps \<noteq> []"
  proof
    assume e: "str_join ''/'' ?comps = []"
    then have "normpath p = ''.''" using np by simp
    with assms(2) show False by (simp add: escapes_root_def)
  qed
  have mem: "''..'' \<in> set ?comps" using assms(2) np jne sp by (simp add: escapes_root_def)
  have "dd_front ?comps" by (rule dd_front_foldl[OF dd_front_Nil])
  then obtain k rest where c: "?comps = replicate k ''..'' @ rest" and r: "''..'' \<notin> set rest"
    unfolding dd_front_def by blast
  have "k \<noteq> 0" using mem r c by (metis append_Nil replicate_0)
  then obtain k' where "k = Suc k'" by (cases k) auto
  then have "?comps = ''..'' # (replicate k' ''..'' @ rest)" using c by simp
  then have "str_join ''/'' ?comps = ''..'' @ (if replicate k' ''..'' @ rest = [] then [] else ''/'' @ str_join ''/'' (replicate k' ''..'' @ rest))"
    by (simp only: str_join_Cons)
  then show ?thesis using np jne by (simp add: startswith_def)
qed

lemma normpath_plain:
  assumes "CHR ''/'' \<notin> set name" "name \<noteq> []" "name \<noteq> ''.''" "name \<noteq> ''..''"
  shows "normpath name = name"
proof -
  have "\<not> startswith name ''/''" using assms(1,2) by (cases name) (auto simp: startswith_def)
  then have "initial_slashes name = 0" by (simp add: initial_slashes_def)
  then show ?thesis using assms by (simp add: normpath_def split_sep_free normpath_step_def)
qed

subsection \<open>Validation raises exactly on absolute paths and on a leading two dots\<close>

text \<open>
  Claim C10.  \<open>validate_repo_path\<close> raises exactly when the path is absolute or its normalized
  form starts with the two characters \<open>..\<close>.  Consequently every single-component name that
  begins with two dots and is not \<open>..\<close> itself (such as \<open>..data\<close>) is rejected although it
  is relative and no \<open>..\<close> component is left after normalization.
\<close>

theorem validate_repo_path_raises_exactly:
  "((\<exists>e. validate_repo_path p = Inl e) = (os_path_isabs p \<or> startswith (normpath p) ''..''))
   \<and> (startswith name ''..'' \<and> name \<noteq> ''..'' \<and> CHR ''/'' \<notin> set name \<longrightarrow>
        \<not> os_path_isabs name \<and> \<not> escapes_root name
        \<and> validate_repo_path name = Inl (ValueError RepoPathMustBeRelative))"
proof (intro conjI impI)
  show "(\<exists>e. validate_repo_path p = Inl e) = (os_path_isabs p \<or> startswith (normpath p) ''..'')"
    by (simp add: validate_repo_path_def)
next
  assume a: "startswith name ''..'' \<and> name \<noteq> ''..'' \<and> CHR ''/'' \<notin> set name"
  then have ne: "name \<noteq> []" "name \<noteq> ''.''" by (auto simp: startswith_def)
  have np: "normpath name = name" using a ne by (simp add: normpath_plain)
  show "\<not> os_path_isabs name" using a by (cases name) (auto simp: os_path_isabs_def startswith_def)
  show "\<not> escapes_root name" using a by (auto simp: escapes_root_def np split_sep_free)
  show "validate_repo_path name = Inl (ValueError RepoPathMustBeRelative)"
    using a by (simp add: validate_repo_path_def np)
qed

theorem validate_repo_path_raises_exactly_witness:
  "startswith ''..data'' ''..'' \<and> ''..data'' \<noteq> ''..'' \<and> CHR ''/'' \<notin> set ''..data''
   \<and> \<not> os_path_isabs ''..data'' \<and> \<not> escapes_root ''..data''
   \<and> validate_repo_path ''..data'' = Inl (ValueError RepoPathMustBeRelative)
   \<and> (\<exists>e. validate_repo_path ''..data'' = Inl e)"
  using validate_repo_path_raises_exactly [of "''..data''" "''..data''"]
  by (simp add: startswith_def)

section \<open>Properties of the directory fingerprint\<close>



















lemma canon_perm:
  assumes "mset es = mset es'" "distinct (map fst es)"
  shows "canon (Dir es) = canon (Dir es')"
proof -
  let ?g = "\<lambda>e::string \<times> node. (fst e, canon (snd e))"
  have fst_g: "\<And>xs. map fst (map ?g xs) = map fst xs" by simp
  have "distinct (map fst (map ?g es))" using assms(2) by (simp only: fst_g)
  then have inj: "inj_on fst (set (map ?g es))" by (simp only: distinct_map)
  have "mset (map ?g es) = mset (map ?g es')"
    using assms(1) by (simp only: mset_map)
  also have "\<dots> = mset (sort_key fst (map ?g es'))" by (simp only: mset_sort)
  finally have m: "mset (map ?g es) = mset (sort_key fst (map ?g es'))" .
  have s: "sorted (map fst (sort_key fst (map ?g es')))" by (rule sorted_sort_key)
  have "sort_key fst (map ?g es) = sort_key fst (map ?g es')"
    using m inj s by (rule sort_key_inj_key_eq)
  then show ?thesis by simp
qed

section \<open>Evaluation and the monad\<close>

text \<open>The defining equations, grouped for the evaluation of concrete runs.\<close>

lemmas path_defs = os_path_join_def startswith_def endswith_def os_path_isabs_def resolve_def
  path_step_def loc_def at_def os_path_exists_def os_path_isdir_def os_path_isfile_def
  os_path_dirname_def rstrip_slash_def shutil_basename_def startswith_list_def
  os_path_abspath_def expand_path_def normpath_def normpath_step_def initial_slashes_def

lemmas example_defs = example_env_def example_fs_def example_world_def example_args_def
  example_registry_def

lemmas io_defs = io_bind_def io_return_def io_raise_def io_pure_def log_def print_def debris_at_def

lemmas prim_defs = os_makedirs_def shutil_move_def shutil_rmtree_def tempfile_mkdtemp_def
  shutil_copytree_def subprocess_run_def write_text_def read_text_def

lemmas prog_defs = validate_skill_dir_def fingerprint_def hash_directory_def is_same_skill_def
  resolve_installer_path_def install_from_github_def replace_skill_def stage_skill_def
  update_one_try_def update_one_def skills_of_def set_skills_def cmd_remove_def cmd_update_def
  load_sources_def save_sources_def with_version_def sources_path_of_def default_sources_def
  DEFAULT_SOURCES_NAME_def validate_repo_path_def


lemma io_bind_Inl: "m w = (Inl e, w') \<Longrightarrow> io_bind m f w = (Inl e, w')"
  by (simp add: io_bind_def)



lemma io_raise_bind: "io_bind (io_raise e) f w = (Inl e, w)"
  by (simp add: io_bind_def io_raise_def)

lemma io_return_bind: "io_bind (io_return x) f w = f x w"
  by (simp add: io_bind_def io_return_def)


section \<open>The comparison of installed and staged copy\<close>





section \<open>Removing records that are not there\<close>

lemma remove_loop_absent:
  "\<forall>name \<in> set names. name \<notin> fst ` set skills \<Longrightarrow> remove_loop names skills removed = (skills, removed)"
  by (induction names) auto

text \<open>
  Claim C8.  When the registry loads and none of the given names is a key of its \<open>skills\<close>
  mapping, \<open>_cmd_remove\<close> returns 0 after printing that there was no record to remove, and
  that line is its only effect: the file system is unchanged and no operation is attempted
  (in particular no write of the registry file).
\<close>

theorem cmd_remove_absent_names:
  assumes "load_sources E w (sources_path_of a dest_root) = Inr data"
    and "args_name a = Some names"
    and "\<forall>name \<in> set names. name \<notin> fst ` set (skills_of data)"
  shows "cmd_remove E a dest_root w = (Inr 0, print Stdout NoRecordToRemove w)
         \<and> fs (print Stdout NoRecordToRemove w) = fs w
         \<and> trace (print Stdout NoRecordToRemove w) = trace w"
  using assms by (simp add: cmd_remove_def Let_def remove_loop_absent print_def)


theorem cmd_remove_absent_names_witness:
  "load_sources example_env example_world (sources_path_of (example_args\<lparr>args_name := Some [''bar'']\<rparr>) ''/skills'')
     = Inr example_registry
   \<and> ''bar'' \<notin> fst ` set (skills_of example_registry)
   \<and> cmd_remove example_env (example_args\<lparr>args_name := Some [''bar'']\<rparr>) ''/skills'' example_world
       = (Inr 0, print Stdout NoRecordToRemove example_world)"
proof -
  let ?a = "example_args\<lparr>args_name := Some [''bar'']\<rparr>"
  have l: "load_sources example_env example_world (sources_path_of ?a ''/skills'') = Inr example_registry"
    by (simp add: path_defs example_defs prim_defs prog_defs)
  have n: "args_name ?a = Some [''bar'']" by simp
  have ab: "\<forall>name \<in> set [''bar'']. name \<notin> fst ` set (skills_of example_registry)"
    by (simp add: example_defs prog_defs)
  from cmd_remove_absent_names [OF l n ab] l ab show ?thesis by simp
qed

section \<open>Records that are rejected before anything is fetched\<close>

lemma bad_path_nonempty: "os_path_isabs p \<or> escapes_root p \<Longrightarrow> p \<noteq> []"
  by (auto simp: os_path_isabs_def startswith_def escapes_root_def normpath_def)

lemma validate_rejects: "os_path_isabs p \<or> escapes_root p \<Longrightarrow> validate_repo_path p = Inl (ValueError RepoPathMustBeRelative)"
  using escapes_startswith[of p] by (auto simp: validate_repo_path_def)

lemma py_in_JObj: "k \<notin> fst ` set kv \<Longrightarrow> py_in k (JObj kv) = Inr False"
  by simp

lemma install_bad_path:
  assumes bad: "os_path_isabs p \<or> escapes_root p"
    and url: "''url'' \<notin> fst ` set kv"
    and path: "map_of kv ''path'' = Some (JStr p) \<or> map_of kv ''path'' = Some (JList [JStr p])"
  shows "install_from_github E (JObj kv) name stage_root installer_path w
           = (Inl (ValueError (if (case map_of kv ''repo'' of None \<Rightarrow> False | Some r \<Rightarrow> truthy r)
                                then RepoPathMustBeRelative else MissingRepoPathOrUrl)), w)"
proof -
  have ne: "p \<noteq> []" using bad by (rule bad_path_nonempty)
  have v: "validate_repo_path p = Inl (ValueError RepoPathMustBeRelative)" using bad by (rule validate_rejects)
  from path show ?thesis
  proof
    assume "map_of kv ''path'' = Some (JStr p)"
    then show ?thesis using url ne v
      by (simp add: install_from_github_def Let_def io_bind_def io_pure_def io_return_def io_raise_def
               split: option.splits)
  next
    assume "map_of kv ''path'' = Some (JList [JStr p])"
    then show ?thesis using url ne v
      by (simp add: install_from_github_def Let_def io_bind_def io_pure_def io_return_def io_raise_def
               split: option.splits)
  qed
qed

lemma install_path_list:
  assumes "''url'' \<notin> fst ` set kv" "map_of kv ''path'' = Some (JList xs)" "length xs \<noteq> 1"
  shows "install_from_github E (JObj kv) name stage_root installer_path w
           = (Inl (ValueError PathListNotSingle), w)"
  using assms
  by (simp add: install_from_github_def Let_def io_bind_def io_pure_def io_return_def io_raise_def
           split: option.splits)

lemma trace_mkdtemp:
  "tempfile_mkdtemp E pre w = (r, w') \<Longrightarrow>
     trace w' = trace w @ [Mkdtemp (os_path_join (tmpdir E) (pre @ tmprand E (trace w)))]"
  by (auto simp: tempfile_mkdtemp_def Let_def log_def split: outcome.splits if_splits option.splits)

lemma trace_makedirs: "os_makedirs E p w = (r, w') \<Longrightarrow> trace w' = trace w @ [Makedirs p]"
  by (auto simp: os_makedirs_def Let_def log_def split: outcome.splits if_splits option.splits)

lemma trace_rmtree: "trace (shutil_rmtree E p w) = trace w @ [Rmtree p]"
  by (auto simp: shutil_rmtree_def Let_def log_def split: outcome.splits if_splits option.splits node.splits)

lemma mkdtemp_path:
  "tempfile_mkdtemp E pre w = (Inr p, w') \<Longrightarrow> p = os_path_join (tmpdir E) (pre @ tmprand E (trace w))"
  by (auto simp: tempfile_mkdtemp_def Let_def split: outcome.splits if_splits option.splits)

text \<open>
  When \<open>_install_from_github\<close> raises on a record without touching the world, staging that
  record fails, and so does its update; all that the update attempts on the outside world is
  the creation of the temporary root and of the staging directory in it, and the removal of
  the temporary root.
\<close>

lemma stage_install_raises:
  assumes "''local_path'' \<notin> fst ` set kv"
    and "\<And>ip w. \<exists>e. install_from_github E (JObj kv) name stage_root ip w = (Inl e, w)"
  shows "\<exists>e. stage_skill E name (JObj kv) a stage_root w = (Inl e, snd (os_makedirs E stage_root w))"
proof (cases "os_makedirs E stage_root w")
  case (Pair r w2)
  show ?thesis
  proof (cases r)
    case (Inl e)
    then show ?thesis using Pair by (simp add: stage_skill_def io_bind_def)
  next
    case (Inr u)
    show ?thesis
    proof (cases "resolve_installer_path E w2 (args_installer a)")
      case (Inl e)
      then show ?thesis using Pair Inr assms(1)
        by (simp add: stage_skill_def io_bind_def io_pure_def)
    next
      case ip: (Inr ip)
      from assms(2)[of ip w2] obtain e where
        "install_from_github E (JObj kv) name stage_root ip w2 = (Inl e, w2)" by blast
      then show ?thesis using Pair Inr ip assms(1)
        by (simp add: stage_skill_def io_bind_def io_pure_def)
    qed
  qed
qed

lemma try_install_raises:
  assumes "''local_path'' \<notin> fst ` set kv"
    and "\<And>ip w. \<exists>e. install_from_github E (JObj kv) name (os_path_join tmp ''stage'') ip w = (Inl e, w)"
  shows "\<exists>e. update_one_try E name (JObj kv) dest_root a tmp w
             = (Inl e, snd (os_makedirs E (os_path_join tmp ''stage'') w))"
  using stage_install_raises[OF assms, of a w]
  by (auto simp: update_one_try_def Let_def io_bind_def)

lemma update_one_install_raises:
  assumes "''local_path'' \<notin> fst ` set kv"
    and "\<And>sr ip w. \<exists>e. install_from_github E (JObj kv) name sr ip w = (Inl e, w)"
  shows "\<exists>e w' evs. update_one E name (JObj kv) dest_root a w0 = (Inl e, w')
               \<and> trace w' = trace w0 @ evs
               \<and> set evs \<subseteq> {Mkdtemp (os_path_join (tmpdir E) (''skill-update-'' @ tmprand E (trace w0))),
                             Makedirs (os_path_join (os_path_join (tmpdir E)
                                         (''skill-update-'' @ tmprand E (trace w0))) ''stage''),
                             Rmtree (os_path_join (tmpdir E) (''skill-update-'' @ tmprand E (trace w0)))}"
proof -
  let ?T = "os_path_join (tmpdir E) (''skill-update-'' @ tmprand E (trace w0))"
  let ?S = "os_path_join ?T ''stage''"
  show ?thesis
  proof (cases "tempfile_mkdtemp E ''skill-update-'' w0")
    case (Pair r1 w1)
    have t1: "trace w1 = trace w0 @ [Mkdtemp ?T]" using Pair by (rule trace_mkdtemp)
    show ?thesis
    proof (cases r1)
      case (Inl e)
      then have "update_one E name (JObj kv) dest_root a w0 = (Inl e, w1)"
        using Pair by (simp add: update_one_def io_bind_def)
      with t1 show ?thesis by auto
    next
      case (Inr tmp)
      then have tmp: "tmp = ?T" using Pair mkdtemp_path by blast
      obtain r2 w2 where mk: "os_makedirs E ?S w1 = (r2, w2)" by fastforce
      then have t2: "trace w2 = trace w1 @ [Makedirs ?S]" by (rule trace_makedirs)
      obtain e where "update_one_try E name (JObj kv) dest_root a ?T w1 = (Inl e, w2)"
        using try_install_raises[where tmp="?T" and dest_root=dest_root and a=a and w=w1, OF assms(1) assms(2)] mk
        by auto
      then have "update_one E name (JObj kv) dest_root a w0 = (Inl e, shutil_rmtree E ?T w2)"
        using Pair Inr tmp by (simp add: update_one_def io_bind_def)
      moreover have "trace (shutil_rmtree E ?T w2) = trace w0 @ [Mkdtemp ?T, Makedirs ?S, Rmtree ?T]"
        by (simp add: trace_rmtree t1 t2)
      ultimately show ?thesis by auto
    qed
  qed
qed

section \<open>Rejection of repository paths\<close>

text \<open>
  Claim C6.  \<open>_validate_repo_path\<close> raises for every absolute path and for every path that
  keeps a \<open>..\<close> component after normalization.  Where a source record with such a path (given
  as a string or as a one-element list) is fetched, \<open>_install_from_github\<close> raises with the
  world unchanged: the subprocess is not run.  The update of a skill with such a record fails,
  and nothing is staged: apart from creating and removing the temporary root with its empty
  staging directory it attempts nothing, no fetch and no copy.
\<close>

theorem validate_repo_path_rejects_before_staging:
  "(os_path_isabs p \<or> escapes_root p \<longrightarrow>
      validate_repo_path p = Inl (ValueError RepoPathMustBeRelative))
   \<and> ((os_path_isabs p \<or> escapes_root p) \<and> ''url'' \<notin> fst ` set kv
        \<and> (map_of kv ''path'' = Some (JStr p) \<or> map_of kv ''path'' = Some (JList [JStr p])) \<longrightarrow>
      (\<exists>e. install_from_github E (JObj kv) name stage_root installer_path w = (Inl e, w)))
   \<and> ((os_path_isabs p \<or> escapes_root p) \<and> ''url'' \<notin> fst ` set kv
        \<and> ''local_path'' \<notin> fst ` set kv
        \<and> (map_of kv ''path'' = Some (JStr p) \<or> map_of kv ''path'' = Some (JList [JStr p])) \<longrightarrow>
      (\<exists>e w' evs. update_one E name (JObj kv) dest_root a w0 = (Inl e, w')
          \<and> trace w' = trace w0 @ evs
          \<and> set evs \<subseteq> {Mkdtemp (os_path_join (tmpdir E) (''skill-update-'' @ tmprand E (trace w0))),
                        Makedirs (os_path_join (os_path_join (tmpdir E)
                                    (''skill-update-'' @ tmprand E (trace w0))) ''stage''),
                        Rmtree (os_path_join (tmpdir E) (''skill-update-'' @ tmprand E (trace w0)))}))"
proof (intro conjI impI)
  assume "os_path_isabs p \<or> escapes_root p"
  then show "validate_repo_path p = Inl (ValueError RepoPathMustBeRelative)"
    by (rule validate_rejects)
next
  assume "(os_path_isabs p \<or> escapes_root p) \<and> ''url'' \<notin> fst ` set kv
        \<and> (map_of kv ''path'' = Some (JStr p) \<or> map_of kv ''path'' = Some (JList [JStr p]))"
  then show "\<exists>e. install_from_github E (JObj kv) name stage_root installer_path w = (Inl e, w)"
    using install_bad_path[of p kv E name stage_root installer_path w] by blast
next
  assume h: "(os_path_isabs p \<or> escapes_root p) \<and> ''url'' \<notin> fst ` set kv
        \<and> ''local_path'' \<notin> fst ` set kv
        \<and> (map_of kv ''path'' = Some (JStr p) \<or> map_of kv ''path'' = Some (JList [JStr p]))"
  then have "\<And>sr ip w. \<exists>e. install_from_github E (JObj kv) name sr ip w = (Inl e, w)"
    using install_bad_path[of p kv E name] by blast
  with h show "\<exists>e w' evs. update_one E name (JObj kv) dest_root a w0 = (Inl e, w')
          \<and> trace w' = trace w0 @ evs
          \<and> set evs \<subseteq> {Mkdtemp (os_path_join (tmpdir E) (''skill-update-'' @ tmprand E (trace w0))),
                        Makedirs (os_path_join (os_path_join (tmpdir E)
                                    (''skill-update-'' @ tmprand E (trace w0))) ''stage''),
                        Rmtree (os_path_join (tmpdir E) (''skill-update-'' @ tmprand E (trace w0)))}"
    by (intro update_one_install_raises) auto
qed

theorem validate_repo_path_rejects_before_staging_witness:
  "escapes_root ''../x'' \<and> os_path_isabs ''/etc''
   \<and> validate_repo_path ''../x'' = Inl (ValueError RepoPathMustBeRelative)
   \<and> validate_repo_path ''/etc'' = Inl (ValueError RepoPathMustBeRelative)
   \<and> ''url'' \<notin> fst ` set [(''repo'', JStr ''o/r''), (''path'', JStr ''../x'')]
   \<and> ''local_path'' \<notin> fst ` set [(''repo'', JStr ''o/r''), (''path'', JStr ''../x'')]
   \<and> (\<exists>e. install_from_github example_env (JObj [(''repo'', JStr ''o/r''), (''path'', JStr ''../x'')])
              ''foo'' ''/tmp/s'' ''/installer.py'' example_world = (Inl e, example_world))
   \<and> (\<exists>e w'. update_one example_env ''foo'' (JObj [(''repo'', JStr ''o/r''), (''path'', JStr ''../x'')])
                 ''/skills'' example_args example_world = (Inl e, w'))"
proof -
  let ?kv = "[(''repo'', JStr ''o/r''), (''path'', JStr ''../x'')]"
  have e: "escapes_root ''../x''"
    by (simp add: escapes_root_def normpath_def initial_slashes_def startswith_def normpath_step_def)
  have a: "os_path_isabs ''/etc''" by (simp add: os_path_isabs_def startswith_def)
  have k: "''url'' \<notin> fst ` set ?kv" "''local_path'' \<notin> fst ` set ?kv"
          "map_of ?kv ''path'' = Some (JStr ''../x'')" by simp_all
  note t = validate_repo_path_rejects_before_staging
         [of "''../x''" ?kv example_env "''foo''" "''/tmp/s''" "''/installer.py''" example_world
             "''/skills''" example_args example_world]
  have 1: "validate_repo_path ''../x'' = Inl (ValueError RepoPathMustBeRelative)" using t e by blast
  have 2: "validate_repo_path ''/etc'' = Inl (ValueError RepoPathMustBeRelative)"
    using validate_repo_path_rejects_before_staging[of "''/etc''"] a by blast
  have 3: "\<exists>e. install_from_github example_env (JObj ?kv) ''foo'' ''/tmp/s'' ''/installer.py'' example_world
              = (Inl e, example_world)" using t e k by blast
  have 4: "\<exists>e w'. update_one example_env ''foo'' (JObj ?kv) ''/skills'' example_args example_world = (Inl e, w')"
    using t e k by blast
  from e a 1 2 k(1,2) 3 4 show ?thesis by blast
qed

section \<open>A path list with several elements\<close>

text \<open>
  Claim C7, as amended.  For a remote-by-repo-path record whose \<open>path\<close> is a list with more
  than one element, \<open>_install_from_github\<close> raises the descriptive \<open>ValueError\<close> with the world
  unchanged, before the subprocess is started.  The update of the skill (\<open>_update_one\<close>) fails,
  and all it attempts on the outside world is the creation of the temporary root and of the
  staging directory in it, and the removal of the temporary root: no fetch, no copy.
\<close>

theorem multi_path_descriptor_fails_before_fetch:
  assumes "''local_path'' \<notin> fst ` set kv" and "''url'' \<notin> fst ` set kv"
    and "map_of kv ''path'' = Some (JList xs)" and "1 < length xs"
  shows "install_from_github E (JObj kv) name stage_root installer_path w
           = (Inl (ValueError PathListNotSingle), w)
         \<and> (\<exists>e w' evs. update_one E name (JObj kv) dest_root a w0 = (Inl e, w')
               \<and> trace w' = trace w0 @ evs
               \<and> set evs \<subseteq> {Mkdtemp (os_path_join (tmpdir E) (''skill-update-'' @ tmprand E (trace w0))),
                             Makedirs (os_path_join (os_path_join (tmpdir E)
                                         (''skill-update-'' @ tmprand E (trace w0))) ''stage''),
                             Rmtree (os_path_join (tmpdir E) (''skill-update-'' @ tmprand E (trace w0)))})"
proof
  have len: "length xs \<noteq> 1" using assms(4) by simp
  show "install_from_github E (JObj kv) name stage_root installer_path w
           = (Inl (ValueError PathListNotSingle), w)"
    using assms(2,3) len by (rule install_path_list)
  have "\<And>sr ip w. \<exists>e. install_from_github E (JObj kv) name sr ip w = (Inl e, w)"
    using install_path_list[OF assms(2,3) len] by blast
  with assms(1)
  show "\<exists>e w' evs. update_one E name (JObj kv) dest_root a w0 = (Inl e, w')
               \<and> trace w' = trace w0 @ evs
               \<and> set evs \<subseteq> {Mkdtemp (os_path_join (tmpdir E) (''skill-update-'' @ tmprand E (trace w0))),
                             Makedirs (os_path_join (os_path_join (tmpdir E)
                                         (''skill-update-'' @ tmprand E (trace w0))) ''stage''),
                             Rmtree (os_path_join (tmpdir E) (''skill-update-'' @ tmprand E (trace w0)))}"
    by (rule update_one_install_raises)
qed

theorem multi_path_descriptor_fails_before_fetch_witness:
  "''local_path'' \<notin> fst ` set [(''repo'', JStr ''o/r''), (''path'', JList [JStr ''a'', JStr ''b''])]
   \<and> ''url'' \<notin> fst ` set [(''repo'', JStr ''o/r''), (''path'', JList [JStr ''a'', JStr ''b''])]
   \<and> install_from_github example_env
        (JObj [(''repo'', JStr ''o/r''), (''path'', JList [JStr ''a'', JStr ''b''])])
        ''foo'' ''/tmp/s'' ''/installer.py'' example_world
       = (Inl (ValueError PathListNotSingle), example_world)
   \<and> (\<exists>e w'. update_one example_env ''foo''
                 (JObj [(''repo'', JStr ''o/r''), (''path'', JList [JStr ''a'', JStr ''b''])])
                 ''/skills'' example_args example_world = (Inl e, w'))"
proof -
  let ?kv = "[(''repo'', JStr ''o/r''), (''path'', JList [JStr ''a'', JStr ''b''])]"
  have k: "''local_path'' \<notin> fst ` set ?kv" "''url'' \<notin> fst ` set ?kv"
          "map_of ?kv ''path'' = Some (JList [JStr ''a'', JStr ''b''])"
          "1 < length [JStr ''a'', JStr ''b'']" by simp_all
  from multi_path_descriptor_fails_before_fetch
          [OF k, of example_env "''foo''" "''/tmp/s''" "''/installer.py''"
              example_world "''/skills''" example_args example_world] k(1,2)
  show ?thesis by blast
qed

text \<open>
  The claim as stated (the error is raised before any I/O is attempted) fails: in the concrete
  world the update of such a record raises the \<open>ValueError\<close> after the temporary root and the
  staging directory have been created on disk.
\<close>

theorem multi_path_descriptor_io_counterexample:
  "update_one example_env ''foo''
     (JObj [(''repo'', JStr ''o/r''), (''path'', JList [JStr ''a'', JStr ''b''])])
     ''/skills'' example_args example_world
   = (Inl (ValueError PathListNotSingle),
      example_world\<lparr>trace := [Mkdtemp ''/tmp/skill-update-abc'',
                               Makedirs ''/tmp/skill-update-abc/stage'',
                               Rmtree ''/tmp/skill-update-abc'']\<rparr>)"
  by (simp add: path_defs example_defs io_defs prim_defs prog_defs Let_def AList.delete_eq)



section \<open>Order independence of the fingerprint\<close>






section \<open>The update command\<close>

subsection \<open>An update of one skill prints nothing\<close>

lemma keeps_outD: "keeps_out m \<Longrightarrow> m w = (r, w') \<Longrightarrow> out w' = out w"
  by (auto simp: keeps_out_def)

lemma keeps_out_bind [intro!]:
  "keeps_out m \<Longrightarrow> (\<And>x. keeps_out (f x)) \<Longrightarrow> keeps_out (io_bind m f)"
  unfolding keeps_out_def io_bind_def
  by (auto split: prod.splits sum.splits)

lemma keeps_out_return [intro!]: "keeps_out (io_return x)"
  by (simp add: keeps_out_def io_return_def)

lemma keeps_out_raise [intro!]: "keeps_out (io_raise e)"
  by (simp add: keeps_out_def io_raise_def)

lemma keeps_out_pure [intro!]: "keeps_out (io_pure g)"
  by (simp add: keeps_out_def io_pure_def)

lemma keeps_out_makedirs [intro!]: "keeps_out (os_makedirs E p)"
  by (auto simp: keeps_out_def os_makedirs_def Let_def log_def split: outcome.splits if_splits option.splits)

lemma keeps_out_move [intro!]: "keeps_out (shutil_move E src dst)"
  by (auto simp: keeps_out_def shutil_move_def Let_def log_def split: outcome.splits if_splits option.splits)

lemma keeps_out_mkdtemp [intro!]: "keeps_out (tempfile_mkdtemp E pre)"
  by (auto simp: keeps_out_def tempfile_mkdtemp_def Let_def log_def split: outcome.splits if_splits option.splits)

lemma keeps_out_copytree [intro!]: "keeps_out (shutil_copytree E src dst)"
  by (auto simp: keeps_out_def shutil_copytree_def Let_def log_def split: outcome.splits if_splits option.splits prod.splits)

lemma keeps_out_run [intro!]: "keeps_out (subprocess_run E cmd)"
  by (auto simp: keeps_out_def subprocess_run_def Let_def log_def split: outcome.splits if_splits option.splits prod.splits)

lemma keeps_out_hash [intro!]: "keeps_out (hash_directory E p)"
  by (auto simp: keeps_out_def hash_directory_def log_def)

lemma out_rmtree [simp]: "out (shutil_rmtree E p w) = out w"
  by (auto simp: shutil_rmtree_def Let_def log_def split: outcome.splits option.splits node.splits)

lemma keeps_out_same [intro!]: "keeps_out (is_same_skill E d n)"
proof -
  have k: "keeps_out (io_bind (hash_directory E d) (\<lambda>h1. io_bind (hash_directory E n) (\<lambda>h2. io_return (h1 = h2))))"
    by blast
  show ?thesis
    unfolding keeps_out_def is_same_skill_def
    using keeps_outD[OF k] by (auto split: if_splits)
qed

lemma keeps_out_install [intro!]: "keeps_out (install_from_github E entry name sr ip)"
  unfolding install_from_github_def Let_def
  by (intro keeps_out_bind keeps_out_pure keeps_out_run)
     (auto split: json.splits)

lemma keeps_out_stage [intro!]: "keeps_out (stage_skill E name entry a sr)"
  unfolding stage_skill_def Let_def
  by (intro keeps_out_bind keeps_out_pure keeps_out_makedirs)
     (auto split: json.splits)

lemma keeps_out_replace [intro!]: "keeps_out (replace_skill E dest_root name new_path keep)"
proof -
  let ?dest = "os_path_join dest_root name"
  have a: "keeps_out (\<lambda>w. if os_path_exists E w ?dest
                 then (let timestamp = strftime E (trace w);
                           backup_path = ?dest @ ''.bak-'' @ timestamp
                       in io_bind (shutil_move E ?dest backup_path) (\<lambda>u.
                            io_return (Some backup_path)) w)
                 else (Inr None, w))"
    unfolding keeps_out_def Let_def
  proof (intro allI impI)
    fix w r w'
    assume h: "(if os_path_exists E w ?dest
                 then io_bind (shutil_move E ?dest (?dest @ ''.bak-'' @ strftime E (trace w))) (\<lambda>u.
                            io_return (Some (?dest @ ''.bak-'' @ strftime E (trace w)))) w
                 else (Inr None, w)) = (r, w')"
    have "keeps_out (io_bind (shutil_move E ?dest (?dest @ ''.bak-'' @ strftime E (trace w))) (\<lambda>u.
                            io_return (Some (?dest @ ''.bak-'' @ strftime E (trace w)))))"
      by blast
    from keeps_outD[OF this] h show "out w' = out w" by (auto split: if_splits)
  qed
  have b: "keeps_out (\<lambda>w. case shutil_move E new_path ?dest w of
                   (Inr u, w') \<Rightarrow> (Inr (), w')
                 | (Inl e, w') \<Rightarrow>
                     (case backup_path of
                        None \<Rightarrow> (Inl e, w')
                      | Some b \<Rightarrow>
                          if os_path_exists E w' b \<and> \<not> os_path_exists E w' ?dest
                          then (case shutil_move E b ?dest w' of
                                  (Inr u, w'') \<Rightarrow> (Inl e, w'')
                                | (Inl e', w'') \<Rightarrow> (Inl e', w''))
                          else (Inl e, w')))" for backup_path
    unfolding keeps_out_def
    by (auto split: prod.splits sum.splits option.splits if_splits
             dest!: keeps_outD[OF keeps_out_move])
  have c: "keeps_out (\<lambda>w. (Inr (),
                     (case backup_path of
                        None \<Rightarrow> w
                      | Some b \<Rightarrow> if \<not> keep then shutil_rmtree E b w else w)))" for backup_path
    unfolding keeps_out_def by (auto split: option.splits)
  show ?thesis
    unfolding replace_skill_def Let_def
    by (intro keeps_out_bind keeps_out_makedirs a[unfolded Let_def] b c)
qed

lemma keeps_out_try [intro!]: "keeps_out (update_one_try E name entry dest_root a tmp)"
  unfolding update_one_try_def Let_def
  by (intro keeps_out_bind keeps_out_pure keeps_out_stage keeps_out_same) auto

lemma out_update_one: "update_one E name entry dest_root a w = (r, w') \<Longrightarrow> out w' = out w"
proof -
  assume h: "update_one E name entry dest_root a w = (r, w')"
  obtain r1 w1 where m: "tempfile_mkdtemp E ''skill-update-'' w = (r1, w1)" by fastforce
  have o1: "out w1 = out w" using keeps_outD[OF keeps_out_mkdtemp m] .
  show ?thesis
  proof (cases r1)
    case (Inl e)
    then show ?thesis using h m o1 by (simp add: update_one_def io_bind_def)
  next
    case (Inr tmp)
    obtain r2 w2 where t: "update_one_try E name entry dest_root a tmp w1 = (r2, w2)" by fastforce
    have "out w2 = out w1" using keeps_outD[OF keeps_out_try t] .
    then show ?thesis using h m o1 Inr t by (auto simp: update_one_def io_bind_def)
  qed
qed

subsection \<open>The loop over the targets\<close>

lemma update_loop_outcomes:
  "update_loop E a dest_root skills targets errors w = (errors', w') \<Longrightarrow>
     out w' = out w @ map (\<lambda>p. report (fst p) (snd p)) (update_outcomes E a dest_root skills targets w)
     \<and> errors' = (errors \<or> (\<exists>p \<in> set (update_outcomes E a dest_root skills targets w). isl (snd p)))
     \<and> map fst (update_outcomes E a dest_root skills targets w) = filter (has_entry skills) targets"
proof (induction E a dest_root skills targets errors w arbitrary: errors' w' rule: update_loop.induct)
  case (1 E a dest_root skills errors w)
  then show ?case by simp
next
  case (2 E a dest_root skills name names errors w)
  show ?case
  proof (cases "has_entry skills name")
    case False
    then have eq: "update_loop E a dest_root skills (name # names) errors w
                 = update_loop E a dest_root skills names errors w"
       "update_outcomes E a dest_root skills (name # names) w
                 = update_outcomes E a dest_root skills names w"
      by (auto simp: has_entry_def split: option.splits)
    with "2.prems" have "update_loop E a dest_root skills names errors w = (errors', w')" by simp
    then have "out w' = out w @ map (\<lambda>p. report (fst p) (snd p)) (update_outcomes E a dest_root skills names w)
     \<and> errors' = (errors \<or> (\<exists>p \<in> set (update_outcomes E a dest_root skills names w). isl (snd p)))
     \<and> map fst (update_outcomes E a dest_root skills names w) = filter (has_entry skills) names"
      using "2.IH"(1,2) False by (fastforce simp: has_entry_def split: option.splits)
    then show ?thesis using False eq(2) by simp
  next
    case True
    then obtain entry where e: "map_of skills name = Some entry" "truthy entry"
      by (auto simp: has_entry_def split: option.splits)
    obtain r w1 where u: "update_one E name entry dest_root a w = (r, w1)" by fastforce
    have o1: "out w1 = out w" using u by (rule out_update_one)
    let ?w2 = "print (fst (report name r)) (snd (report name r)) w1"
    let ?rest = "update_outcomes E a dest_root skills names ?w2"
    have uo: "update_outcomes E a dest_root skills (name # names) w = (name, r) # ?rest"
      using e u by simp
    have ih: "out w' = out ?w2 @ map (\<lambda>p. report (fst p) (snd p)) ?rest
        \<and> errors' = ((errors \<or> isl r) \<or> (\<exists>p \<in> set ?rest. isl (snd p)))
        \<and> map fst ?rest = filter (has_entry skills) names"
    proof (cases r)
      case (Inr updated)
      have "update_loop E a dest_root skills names errors ?w2 = (errors', w')"
        using "2.prems" e u Inr by simp
      then show ?thesis using "2.IH"(4)[OF e(1) _ u[symmetric] Inr] e(2) Inr by simp
    next
      case (Inl exc)
      have "update_loop E a dest_root skills names True ?w2 = (errors', w')"
        using "2.prems" e u Inl by simp
      then show ?thesis using "2.IH"(3)[OF e(1) _ u[symmetric] Inl] e(2) Inl by simp
    qed
    have "out ?w2 = out w @ [report name r]" using o1 by (simp add: print_def)
    then show ?thesis using ih uo True by auto
  qed
qed

lemma fold_print_out:
  "out (fold (\<lambda>name. print s (f name)) names w) = out w @ map (\<lambda>name. (s, f name)) names"
  by (induction names arbitrary: w) (auto simp: print_def)

lemma cmd_update_outcomes:
  assumes ex: "os_path_exists E w (sources_path_of a dest_root)"
    and ld: "load_sources E w (sources_path_of a dest_root) = Inr data"
    and tg: "update_targets a (skills_of data) \<noteq> []"
  shows "\<exists>w'. cmd_update E a dest_root w
             = (Inr (if \<exists>p \<in> set (update_outcomes E a dest_root (skills_of data)
                                    (update_targets a (skills_of data))
                                    (missing_reported (skills_of data) (update_targets a (skills_of data)) w)).
                          isl (snd p) then 1 else 0), w')
           \<and> out w' = out w
               @ map (\<lambda>name. (Stderr, RecordMissingSkipped name))
                   (filter (\<lambda>name. name \<notin> fst ` set (skills_of data)) (update_targets a (skills_of data)))
               @ map (\<lambda>p. report (fst p) (snd p))
                   (update_outcomes E a dest_root (skills_of data) (update_targets a (skills_of data))
                      (missing_reported (skills_of data) (update_targets a (skills_of data)) w))"
proof -
  let ?skills = "skills_of data" and ?targets = "update_targets a (skills_of data)"
  let ?w1 = "missing_reported ?skills ?targets w"
  obtain errors w2 where lp: "update_loop E a dest_root ?skills ?targets False ?w1 = (errors, w2)"
    by fastforce
  note l = update_loop_outcomes[OF lp]
  have c: "cmd_update E a dest_root w = (Inr (if errors then 1 else 0), w2)"
    using ex ld tg lp by (simp add: cmd_update_def Let_def update_targets_def missing_reported_def)
  have o: "out ?w1 = out w @ map (\<lambda>name. (Stderr, RecordMissingSkipped name))
                   (filter (\<lambda>name. name \<notin> fst ` set ?skills) ?targets)"
    unfolding missing_reported_def by (rule fold_print_out)
  show ?thesis using c l o by simp
qed

subsection \<open>Exit status\<close>


lemmas aux_defs = update_targets_def missing_reported_def has_entry_def




subsection \<open>Failure isolation in a batch\<close>

text \<open>
  Claim C5, as amended.  When the registry loads and there are targets, \<open>_cmd_update\<close>
  returns a status; its loop calls \<open>_update_one\<close> once for every target that has a non-empty
  record, in the order of the targets and whatever the results of the earlier calls; and it
  prints one line for every target absent from the registry (``skipped'') followed by one line
  for every call, which for a call that raised reports the failure.
\<close>

theorem cmd_update_batch_isolation:
  assumes "os_path_exists E w (sources_path_of a dest_root)"
    and "load_sources E w (sources_path_of a dest_root) = Inr data"
    and "update_targets a (skills_of data) \<noteq> []"
  shows "(\<exists>rc. fst (cmd_update E a dest_root w) = Inr rc)
     \<and> map fst (update_outcomes E a dest_root (skills_of data)
                   (update_targets a (skills_of data))
                   (missing_reported (skills_of data) (update_targets a (skills_of data)) w))
          = filter (has_entry (skills_of data)) (update_targets a (skills_of data))
     \<and> out (snd (cmd_update E a dest_root w))
          = out w
            @ map (\<lambda>name. (Stderr, RecordMissingSkipped name))
                (filter (\<lambda>name. name \<notin> fst ` set (skills_of data)) (update_targets a (skills_of data)))
            @ map (\<lambda>p. report (fst p) (snd p))
                (update_outcomes E a dest_root (skills_of data) (update_targets a (skills_of data))
                   (missing_reported (skills_of data) (update_targets a (skills_of data)) w))"
proof -
  obtain errors w2 where lp: "update_loop E a dest_root (skills_of data) (update_targets a (skills_of data)) False
           (missing_reported (skills_of data) (update_targets a (skills_of data)) w) = (errors, w2)"
    by fastforce
  from cmd_update_outcomes[OF assms] obtain w' where
    c: "cmd_update E a dest_root w
             = (Inr (if \<exists>p \<in> set (update_outcomes E a dest_root (skills_of data)
                                    (update_targets a (skills_of data))
                                    (missing_reported (skills_of data) (update_targets a (skills_of data)) w)).
                          isl (snd p) then 1 else 0), w')"
    and o: "out w' = out w
               @ map (\<lambda>name. (Stderr, RecordMissingSkipped name))
                   (filter (\<lambda>name. name \<notin> fst ` set (skills_of data)) (update_targets a (skills_of data)))
               @ map (\<lambda>p. report (fst p) (snd p))
                   (update_outcomes E a dest_root (skills_of data) (update_targets a (skills_of data))
                      (missing_reported (skills_of data) (update_targets a (skills_of data)) w))"
    by blast
  have 1: "\<exists>rc. fst (cmd_update E a dest_root w) = Inr rc" by (simp only: c fst_conv) blast
  have 3: "out (snd (cmd_update E a dest_root w)) = out w'" by (simp only: c snd_conv)
  from update_loop_outcomes[OF lp] 1 3 o show ?thesis by simp
qed

theorem cmd_update_batch_isolation_witness:
  "os_path_exists example_env example_world
     (sources_path_of (example_args\<lparr>args_all := False, args_name := Some [''bar'', ''foo'']\<rparr>) ''/skills'')
   \<and> load_sources example_env example_world
        (sources_path_of (example_args\<lparr>args_all := False, args_name := Some [''bar'', ''foo'']\<rparr>) ''/skills'')
       = Inr example_registry
   \<and> update_targets (example_args\<lparr>args_all := False, args_name := Some [''bar'', ''foo'']\<rparr>)
        (skills_of example_registry) = [''bar'', ''foo'']
   \<and> out (snd (cmd_update example_env (example_args\<lparr>args_all := False, args_name := Some [''bar'', ''foo'']\<rparr>)
                  ''/skills'' example_world))
       = [(Stderr, RecordMissingSkipped ''bar''), (Stdout, UpdateDone ''foo'')]"
proof -
  let ?a = "example_args\<lparr>args_all := False, args_name := Some [''bar'', ''foo'']\<rparr>"
  have ex: "os_path_exists example_env example_world (sources_path_of ?a ''/skills'')"
    by (simp add: path_defs example_defs prog_defs)
  have ld: "load_sources example_env example_world (sources_path_of ?a ''/skills'') = Inr example_registry"
    by (simp add: path_defs example_defs prim_defs prog_defs)
  have tg: "update_targets ?a (skills_of example_registry) = [''bar'', ''foo'']"
    by (simp add: example_defs prog_defs aux_defs)
  then have tg': "update_targets ?a (skills_of example_registry) \<noteq> []" by simp
  have outs: "update_outcomes example_env ?a ''/skills'' (skills_of example_registry)
                 [''bar'', ''foo''] (missing_reported (skills_of example_registry) [''bar'', ''foo''] example_world)
              = [(''foo'', Inr True)]"
    by (simp add: path_defs example_defs io_defs prim_defs prog_defs aux_defs Let_def AList.delete_eq)
  have sk: "filter (\<lambda>name. name \<notin> fst ` set (skills_of example_registry)) [''bar'', ''foo''] = [''bar'']"
    by (simp add: example_defs prog_defs)
  have o: "out example_world = []" by (simp add: example_defs)
  from cmd_update_batch_isolation[OF ex ld tg'] tg outs sk o
  have "out (snd (cmd_update example_env ?a ''/skills'' example_world))
       = [(Stderr, RecordMissingSkipped ''bar''), (Stdout, UpdateDone ''foo'')]" by simp
  with ex ld tg show ?thesis by blast
qed


text \<open>
  The claim as stated (every name present in the registry has its update attempted) fails for
  a name whose record is empty: the guard \<open>if not entry: continue\<close> of the loop skips it, and
  nothing at all is printed or attempted for it.
\<close>

theorem cmd_update_empty_entry_counterexample:
  "''foo'' \<in> fst ` set (skills_of (JObj [(''version'', JInt 1), (''skills'', JObj [(''foo'', JObj [])])]))
   \<and> cmd_update
        (example_env\<lparr>json_load := (\<lambda>s. Inr (JObj [(''version'', JInt 1), (''skills'', JObj [(''foo'', JObj [])])]))\<rparr>)
        (example_args\<lparr>args_all := False, args_name := Some [''foo'']\<rparr>) ''/skills'' example_world
       = (Inr 0, example_world)"
  by (simp add: path_defs example_defs io_defs prim_defs prog_defs Let_def)


section \<open>Paths in the file system tree\<close>


lemma unrelated_Nil [simp]: "\<not> unrelated [] q" "\<not> unrelated p []"
  by (auto simp: unrelated_def startswith_list_def)



lemma lookup_nonDir: "p \<noteq> [] \<Longrightarrow> (\<And>es. t \<noteq> Dir es) \<Longrightarrow> lookup t p = None"
  by (cases p; cases t) auto























lemma exists_at_cong: "at E w p = at E w' p \<Longrightarrow> os_path_exists E w p = os_path_exists E w' p"
  by (simp add: os_path_exists_def)



lemmas example_defs2 = example_defs installed_world_def staged_world_def final_move_fails_env_def
  moves_to_target_fail_env_def


section \<open>An update that changes nothing\<close>



section \<open>Rollback of the replacement transaction\<close>




text \<open>
  The amended claim asks for a backup path that is not an existing directory.  Where one
  exists (an earlier backup of the same second), \<open>shutil.move\<close> puts the installed copy inside
  it, and the rollback moves that directory, not the installed copy, to the target path.
\<close>

lemma replace_skill_backup_collision_example:
  "at final_move_fails_env collision_world ''/skills/foo'' = Some (Dir [(''SKILL.md'', File ''m'')])
   \<and> fst (replace_skill final_move_fails_env ''/skills'' ''foo'' ''/tmp/new'' False collision_world)
       = Inl (OSError ''/tmp/new'')
   \<and> at final_move_fails_env
        (snd (replace_skill final_move_fails_env ''/skills'' ''foo'' ''/tmp/new'' False collision_world))
        ''/skills/foo''
       = Some (Dir [(''SKILL.md'', File ''m0''), (''foo'', Dir [(''SKILL.md'', File ''m'')])])"
  by (simp add: path_defs example_defs2 collision_world_def io_defs prim_defs prog_defs Let_def
        AList.delete_eq)


end
